theory Spec2Isabelle
  imports Main
begin

section \<open>Python values used by the login flow\<close>

text \<open>
  The two source files, \<^verbatim>\<open>account.py\<close> and \<^verbatim>\<open>bot.py\<close>, drive a Pyrogram client
  through a phone / one-time-code / password login and store the exported session in a
  MongoDB collection. The embedding below keeps the source's names. Everything the code
  does beyond returning a value is explicit:
  \<^item> an exception is a value of \<open>exc\<close>, and a computation that may raise returns
    \<open>exc + 'a\<close> (\<open>Inl\<close> the exception);
  \<^item> client objects live in a store indexed by address, because the dictionaries hold
    references to them and a client outlives the dictionary entry that pointed to it;
  \<^item> every call into the Pyrogram library is appended to a trace;
  \<^item> what the network, the database and the clock answer during one handler run is
    the parameter \<open>net\<close>.

  Handlers run one at a time. Calls to the logger are left out, and so are the wrappers
  \<^verbatim>\<open>AsyncManager\<close> and \<^verbatim>\<open>AccountManager\<close>, which run a coroutine to its end and hand
  back its result or its exception.
\<close>

datatype exc =
    FloodWait int string
  | SessionPasswordNeeded string
  | KeyError string
  | OtherError string

text \<open>\<^verbatim>\<open>str(e)\<close>: library exceptions carry their message; a \<^verbatim>\<open>KeyError\<close> prints the
  \<^verbatim>\<open>repr\<close> of the missing key, which is what the constructor stores.\<close>

fun str_exc :: "exc \<Rightarrow> string" where
  "str_exc (FloodWait v s) = s"
| "str_exc (SessionPasswordNeeded s) = s"
| "str_exc (KeyError k) = k"
| "str_exc (OtherError s) = s"

definition digit_char :: "nat \<Rightarrow> char" where
  "digit_char n = ''0123456789'' ! n"

fun str_nat :: "nat \<Rightarrow> string" where
  "str_nat n = (if n < 10 then [digit_char n] else str_nat (n div 10) @ [digit_char (n mod 10)])"

text \<open>\<^verbatim>\<open>str\<close> and \<^verbatim>\<open>repr\<close> of a Python int.\<close>

definition str_int :: "int \<Rightarrow> string" where
  "str_int i = (if i < 0 then CHR ''-'' # str_nat (nat (- i)) else str_nat (nat i))"

text \<open>\<^verbatim>\<open>repr\<close> of a string key without quotes or backslashes in it.\<close>

definition repr_str :: "string \<Rightarrow> string" where
  "repr_str s = CHR 0x27 # s @ [CHR 0x27]"

text \<open>\<^verbatim>\<open>d[key]\<close> on a dictionary whose key may be absent.\<close>

definition getitem :: "string \<Rightarrow> 'a option \<Rightarrow> exc + 'a" where
  "getitem key v = (case v of None \<Rightarrow> Inl (KeyError (repr_str key)) | Some x \<Rightarrow> Inr x)"

text \<open>\<^verbatim>\<open>error or default\<close> where \<^verbatim>\<open>error\<close> is \<^verbatim>\<open>None\<close> or a string.\<close>

definition or_default :: "string option \<Rightarrow> string \<Rightarrow> string" where
  "or_default error d = (case error of None \<Rightarrow> d | Some s \<Rightarrow> (if s = [] then d else s))"

text \<open>\<^verbatim>\<open>not session_string\<close> where the value is \<^verbatim>\<open>None\<close> or a string, and the
  string itself where it is one.\<close>

definition falsy :: "string option \<Rightarrow> bool" where
  "falsy v = (case v of None \<Rightarrow> True | Some s \<Rightarrow> s = [])"

definition string_of :: "string option \<Rightarrow> string" where
  "string_of v = (case v of None \<Rightarrow> [] | Some s \<Rightarrow> s)"

text \<open>Sequencing inside a \<^verbatim>\<open>try\<close> block: an exception of the first step skips the
  rest and keeps the state reached so far.\<close>

definition bind_exc :: "(exc + 'a) \<times> 's \<Rightarrow> ('a \<Rightarrow> 's \<Rightarrow> (exc + 'b) \<times> 's) \<Rightarrow> (exc + 'b) \<times> 's" where
  "bind_exc m k = (case m of (Inl e, s) \<Rightarrow> (Inl e, s) | (Inr v, s) \<Rightarrow> k v s)"

section \<open>Documents of the accounts collection\<close>

datatype bson = BStr string | BInt int | BBool bool | BNull | BDate int

type_synonym doc = "(string \<times> bson) list"

section \<open>Pyrogram clients, the calls made on them, and the outside world\<close>

text \<open>
  A client object as the code inspects it. \<^verbatim>\<open>hasattr(client, 'is_connected') and
  client.is_connected\<close> reads an attribute that may be missing: \<open>None\<close> is a missing
  attribute, \<open>Some b\<close> an attribute whose value has truth value \<open>b\<close>.
\<close>

record client =
  is_connected :: "bool option"
  session :: "bool option"

definition attr_truthy :: "bool option \<Rightarrow> bool" where
  "attr_truthy a = (case a of None \<Rightarrow> False | Some b \<Rightarrow> b)"

datatype call =
    Connect nat
  | SendCode nat string
  | SignIn nat string string string
  | CheckPassword nat string
  | GetMe nat
  | ExportSessionString nat
  | SessionStop nat
  | Disconnect nat

text \<open>
  The answers of the outside world during one handler run. Each library call is made at
  most once per run (a second \<^verbatim>\<open>connect\<close> is guarded by \<^verbatim>\<open>is_connected\<close>), so one
  answer per operation describes every run.
\<close>

record net =
  connect_r :: "exc option"
  send_code_r :: "exc + string"
  sign_in_r :: "exc option"
  check_password_r :: "exc option"
  get_me_r :: "exc + bool"
  export_session_string_r :: "exc + string"
  session_stop_r :: "exc option"
  disconnect_r :: "exc option"
  insert_one_r :: "exc option"
  reply_r :: "exc option"
  utcnow :: int

record pyro =
  clients :: "nat \<Rightarrow> client"
  next_client :: nat
  trace :: "call list"

definition log_call :: "call \<Rightarrow> 'a pyro_scheme \<Rightarrow> 'a pyro_scheme" where
  "log_call c p = p\<lparr>trace := trace p @ [c]\<rparr>"

definition set_client :: "nat \<Rightarrow> client \<Rightarrow> 'a pyro_scheme \<Rightarrow> 'a pyro_scheme" where
  "set_client c v p = p\<lparr>clients := (clients p)(c := v)\<rparr>"

text \<open>
  The library operations. Pyrogram is not part of the repository; of each operation the
  model keeps the call, its outcome as \<open>net\<close> gives it, and the one effect the code
  reads back: a successful \<^verbatim>\<open>connect\<close> leaves \<^verbatim>\<open>is_connected\<close> true and a session
  object in place, a successful \<^verbatim>\<open>disconnect\<close> leaves \<^verbatim>\<open>is_connected\<close> false, and
  a call that raises changes neither.
\<close>

definition client_connect :: "net \<Rightarrow> nat \<Rightarrow> 'a pyro_scheme \<Rightarrow> (exc + unit) \<times> 'a pyro_scheme" where
  "client_connect n c p =
     (let p1 = log_call (Connect c) p in
      case connect_r n of
        Some e \<Rightarrow> (Inl e, p1)
      | None \<Rightarrow> (Inr (), set_client c \<lparr>is_connected = Some True, session = Some True\<rparr> p1))"

definition client_disconnect :: "net \<Rightarrow> nat \<Rightarrow> 'a pyro_scheme \<Rightarrow> (exc + unit) \<times> 'a pyro_scheme" where
  "client_disconnect n c p =
     (let p1 = log_call (Disconnect c) p in
      case disconnect_r n of
        Some e \<Rightarrow> (Inl e, p1)
      | None \<Rightarrow> (Inr (), set_client c ((clients p1 c)\<lparr>is_connected := Some False\<rparr>) p1))"

definition session_stop :: "net \<Rightarrow> nat \<Rightarrow> 'a pyro_scheme \<Rightarrow> (exc + unit) \<times> 'a pyro_scheme" where
  "session_stop n c p =
     (let p1 = log_call (SessionStop c) p in
      case session_stop_r n of Some e \<Rightarrow> (Inl e, p1) | None \<Rightarrow> (Inr (), p1))"

definition client_send_code :: "net \<Rightarrow> nat \<Rightarrow> string \<Rightarrow> 'a pyro_scheme \<Rightarrow> (exc + string) \<times> 'a pyro_scheme" where
  "client_send_code n c phone_number p = (send_code_r n, log_call (SendCode c phone_number) p)"

definition client_sign_in ::
  "net \<Rightarrow> nat \<Rightarrow> string \<Rightarrow> string \<Rightarrow> string \<Rightarrow> 'a pyro_scheme \<Rightarrow> (exc + unit) \<times> 'a pyro_scheme" where
  "client_sign_in n c phone_number phone_code_hash phone_code p =
     (let p1 = log_call (SignIn c phone_number phone_code_hash phone_code) p in
      case sign_in_r n of Some e \<Rightarrow> (Inl e, p1) | None \<Rightarrow> (Inr (), p1))"

definition client_check_password :: "net \<Rightarrow> nat \<Rightarrow> string \<Rightarrow> 'a pyro_scheme \<Rightarrow> (exc + unit) \<times> 'a pyro_scheme" where
  "client_check_password n c password p =
     (let p1 = log_call (CheckPassword c password) p in
      case check_password_r n of Some e \<Rightarrow> (Inl e, p1) | None \<Rightarrow> (Inr (), p1))"

definition client_get_me :: "net \<Rightarrow> nat \<Rightarrow> 'a pyro_scheme \<Rightarrow> (exc + bool) \<times> 'a pyro_scheme" where
  "client_get_me n c p = (get_me_r n, log_call (GetMe c) p)"

definition client_export_session_string :: "net \<Rightarrow> nat \<Rightarrow> 'a pyro_scheme \<Rightarrow> (exc + string) \<times> 'a pyro_scheme" where
  "client_export_session_string n c p = (export_session_string_r n, log_call (ExportSessionString c) p)"

section \<open>account.py: PyrogramClientManager\<close>

text \<open>\<^verbatim>\<open>create_client\<close>: a new, unconnected client object; no network traffic. A new
  \<^verbatim>\<open>Client\<close> has both attributes, set to \<^verbatim>\<open>None\<close>.\<close>

definition create_client :: "'a pyro_scheme \<Rightarrow> nat \<times> 'a pyro_scheme" where
  "create_client p =
     (next_client p,
      (set_client (next_client p) \<lparr>is_connected = Some False, session = Some False\<rparr> p)
        \<lparr>next_client := Suc (next_client p)\<rparr>)"

text \<open>
  \<^verbatim>\<open>safe_disconnect\<close>. The body is what stands inside the outer \<^verbatim>\<open>try\<close>; the inner
  \<^verbatim>\<open>try: await client.session.stop() except: pass\<close> keeps the state the stop left and
  drops its exception. The argument is \<open>None\<close> for Python's \<^verbatim>\<open>None\<close>.
\<close>

definition safe_disconnect_body :: "net \<Rightarrow> nat option \<Rightarrow> 'a pyro_scheme \<Rightarrow> (exc + unit) \<times> 'a pyro_scheme" where
  "safe_disconnect_body n client p =
     (case client of
        None \<Rightarrow> (Inr (), p)
      | Some c \<Rightarrow>
          if attr_truthy (is_connected (clients p c)) then
            (let p1 = (if attr_truthy (session (clients p c)) then snd (session_stop n c p) else p)
             in client_disconnect n c p1)
          else (Inr (), p))"

definition safe_disconnect :: "net \<Rightarrow> nat option \<Rightarrow> 'a pyro_scheme \<Rightarrow> (exc + unit) \<times> 'a pyro_scheme" where
  "safe_disconnect n client p =
     (case safe_disconnect_body n client p of
        (Inl e, p') \<Rightarrow> (Inr (), p')
      | (Inr u, p') \<Rightarrow> (Inr (), p'))"

definition send_code_body :: "net \<Rightarrow> nat \<Rightarrow> string \<Rightarrow> 'a pyro_scheme \<Rightarrow> (exc + string) \<times> 'a pyro_scheme" where
  "send_code_body n client phone_number p =
     (case (if attr_truthy (is_connected (clients p client))
            then safe_disconnect n (Some client) p else (Inr (), p)) of
        (Inl e, p1) \<Rightarrow> (Inl e, p1)
      | (Inr u, p1) \<Rightarrow>
          (case client_connect n client p1 of
             (Inl e, p2) \<Rightarrow> (Inl e, p2)
           | (Inr u, p2) \<Rightarrow> client_send_code n client phone_number p2))"

definition send_code ::
  "net \<Rightarrow> nat \<Rightarrow> string \<Rightarrow> 'a pyro_scheme \<Rightarrow> (bool \<times> string option \<times> string option) \<times> 'a pyro_scheme" where
  "send_code n client phone_number p =
     (case send_code_body n client phone_number p of
        (Inr phone_code_hash, p') \<Rightarrow> ((True, Some phone_code_hash, None), p')
      | (Inl (FloodWait v s), p') \<Rightarrow>
          ((False, None, Some (''FloodWait: Please wait '' @ str_int v @ '' seconds'')), p')
      | (Inl e, p') \<Rightarrow> ((False, None, Some (str_exc e)), p'))"

definition sign_in_with_otp_body ::
  "net \<Rightarrow> nat \<Rightarrow> string \<Rightarrow> string \<Rightarrow> string \<Rightarrow> 'a pyro_scheme \<Rightarrow> (exc + unit) \<times> 'a pyro_scheme" where
  "sign_in_with_otp_body n client phone_number phone_code_hash otp_code p =
     (case (if \<not> attr_truthy (is_connected (clients p client))
            then client_connect n client p else (Inr (), p)) of
        (Inl e, p1) \<Rightarrow> (Inl e, p1)
      | (Inr u, p1) \<Rightarrow> client_sign_in n client phone_number phone_code_hash otp_code p1)"

definition sign_in_with_otp ::
  "net \<Rightarrow> nat \<Rightarrow> string \<Rightarrow> string \<Rightarrow> string \<Rightarrow> 'a pyro_scheme
     \<Rightarrow> (bool \<times> string option \<times> string option) \<times> 'a pyro_scheme" where
  "sign_in_with_otp n client phone_number phone_code_hash otp_code p =
     (case sign_in_with_otp_body n client phone_number phone_code_hash otp_code p of
        (Inr u, p') \<Rightarrow> ((True, None, None), p')
      | (Inl (SessionPasswordNeeded s), p') \<Rightarrow> ((False, Some ''password_required'', None), p')
      | (Inl e, p') \<Rightarrow> ((False, Some ''error'', Some (str_exc e)), p'))"

definition sign_in_with_password_body ::
  "net \<Rightarrow> nat \<Rightarrow> string \<Rightarrow> 'a pyro_scheme \<Rightarrow> (exc + unit) \<times> 'a pyro_scheme" where
  "sign_in_with_password_body n client password p =
     (case (if \<not> attr_truthy (is_connected (clients p client))
            then client_connect n client p else (Inr (), p)) of
        (Inl e, p1) \<Rightarrow> (Inl e, p1)
      | (Inr u, p1) \<Rightarrow> client_check_password n client password p1)"

definition sign_in_with_password ::
  "net \<Rightarrow> nat \<Rightarrow> string \<Rightarrow> 'a pyro_scheme \<Rightarrow> (bool \<times> string option) \<times> 'a pyro_scheme" where
  "sign_in_with_password n client password p =
     (case sign_in_with_password_body n client password p of
        (Inr u, p') \<Rightarrow> ((True, None), p')
      | (Inl e, p') \<Rightarrow> ((False, Some (str_exc e)), p'))"

text \<open>\<^verbatim>\<open>get_session_string\<close>: both handlers log and return \<^verbatim>\<open>None\<close>; a falsy
  \<^verbatim>\<open>get_me\<close> result falls through to \<^verbatim>\<open>return None\<close> as well.\<close>

definition get_session_string :: "net \<Rightarrow> nat \<Rightarrow> 'a pyro_scheme \<Rightarrow> string option \<times> 'a pyro_scheme" where
  "get_session_string n client p =
     (case (if \<not> attr_truthy (is_connected (clients p client))
            then client_connect n client p else (Inr (), p)) of
        (Inl e, p1) \<Rightarrow> (None, p1)
      | (Inr u, p1) \<Rightarrow>
          (case client_get_me n client p1 of
             (Inl e, p2) \<Rightarrow> (None, p2)
           | (Inr me, p2) \<Rightarrow>
               if me then
                 (case client_export_session_string n client p2 of
                    (Inl e, p3) \<Rightarrow> (None, p3)
                  | (Inr s, p3) \<Rightarrow> (Some s, p3))
               else (None, p2)))"

section \<open>account.py: the login flow\<close>

text \<open>
  One entry of \<^verbatim>\<open>login_states\<close>: a dictionary with the keys the flow reads and writes.
  A field is \<open>None\<close> when the key is absent, so that \<^verbatim>\<open>state["client"]\<close> on an entry
  the caller created without it raises \<^verbatim>\<open>KeyError\<close>.
\<close>

record login_state =
  st_client :: "nat option"
  st_phone :: "string option"
  st_phone_code_hash :: "string option"
  st_step :: "string option"
  st_manager :: "(int \<times> string) option"
  st_country :: "string option"
  st_api_id :: "int option"
  st_api_hash :: "string option"

text \<open>One entry of \<^verbatim>\<open>user_state\<close> in \<^verbatim>\<open>bot.py\<close>: \<^verbatim>\<open>{"step": ...}\<close> with
  \<^verbatim>\<open>"phone"\<close> and \<^verbatim>\<open>"hash"\<close> once the code was sent.\<close>

record bot_state =
  b_step :: string
  b_phone :: "string option"
  b_hash :: "string option"

text \<open>The replies of \<^verbatim>\<open>bot.py\<close>. Their texts hold characters outside ASCII, so a
  reply is named by its constructor and carries the values the text interpolates.\<close>

datatype reply =
    ReplySendPhone
  | ReplyFloodWait int
  | ReplyFailedToSend string
  | ReplyOtpSent
  | ReplySendPassword
  | ReplyAccountAdded

text \<open>
  The mutable state around the handlers: the client objects and the trace, the
  \<^verbatim>\<open>login_states\<close> dictionary and the collection that \<^verbatim>\<open>account.py\<close> receives as
  arguments, and the module globals of \<^verbatim>\<open>bot.py\<close> (\<^verbatim>\<open>user_state\<close>,
  \<^verbatim>\<open>temp_clients\<close>, the replies sent). Both files write to and read from the one
  collection \<open>accounts_col\<close>.
\<close>

record world = pyro +
  login_states :: "int \<rightharpoonup> login_state"
  accounts_col :: "doc list"
  user_state :: "int \<rightharpoonup> bot_state"
  temp_clients :: "int \<rightharpoonup> nat"
  replies :: "reply list"

text \<open>\<^verbatim>\<open>accounts_col.insert_one(doc)\<close>: appends, or raises and writes nothing.\<close>

definition insert_one :: "net \<Rightarrow> doc \<Rightarrow> world \<Rightarrow> (exc + unit) \<times> world" where
  "insert_one n d w =
     (case insert_one_r n of
        Some e \<Rightarrow> (Inl e, w)
      | None \<Rightarrow> (Inr (), w\<lparr>accounts_col := accounts_col w @ [d]\<rparr>))"

text \<open>\<^verbatim>\<open>login_states.pop(user_id, None)\<close>.\<close>

definition pop_state :: "int \<Rightarrow> world \<Rightarrow> world" where
  "pop_state user_id w = w\<lparr>login_states := (login_states w)(user_id := None)\<rparr>"

text \<open>
  The handlers return a pair \<^verbatim>\<open>(ok, message)\<close>; the message is \<open>None\<close> for Python's
  \<^verbatim>\<open>None\<close>. Each handler is a body inside \<^verbatim>\<open>try\<close> and the \<^verbatim>\<open>except Exception\<close>
  clause around it.
\<close>

type_synonym outcome = "bool \<times> string option"

definition pyrogram_login_flow_body ::
  "net \<Rightarrow> int \<Rightarrow> string \<Rightarrow> int \<Rightarrow> int \<Rightarrow> string \<Rightarrow> int \<Rightarrow> string \<Rightarrow> world
     \<Rightarrow> (exc + outcome) \<times> world" where
  "pyrogram_login_flow_body n user_id phone_number chat_id message_id country api_id api_hash w =
     (case login_states w user_id of
        None \<Rightarrow> (Inr (False, Some ''Session expired''), w)
      | Some state0 \<Rightarrow>
          (case create_client w of (client, w1) \<Rightarrow>
          (case send_code n client phone_number w1 of ((success, phone_code_hash, error), w2) \<Rightarrow>
             if success then
               bind_exc (case login_states w2 user_id of
                           None \<Rightarrow> Inl (KeyError (str_int user_id))
                         | Some state \<Rightarrow> Inr state, w2) (\<lambda>state w2.
                 (Inr (True, Some ''OTP sent successfully''),
                  w2\<lparr>login_states := (login_states w2)(user_id \<mapsto>
                        state\<lparr>st_client := Some client,
                              st_phone := Some phone_number,
                              st_phone_code_hash := phone_code_hash,
                              st_step := Some ''waiting_otp'',
                              st_manager := Some (api_id, api_hash),
                              st_country := Some country,
                              st_api_id := Some api_id,
                              st_api_hash := Some api_hash\<rparr>)\<rparr>))
             else
               bind_exc (safe_disconnect n (Some client) w2) (\<lambda>u w3.
                 (Inr (False, Some (or_default error ''Failed to send OTP'')), w3)))))"

definition pyrogram_login_flow_async ::
  "net \<Rightarrow> int \<Rightarrow> string \<Rightarrow> int \<Rightarrow> int \<Rightarrow> string \<Rightarrow> int \<Rightarrow> string \<Rightarrow> world
     \<Rightarrow> (exc + outcome) \<times> world" where
  "pyrogram_login_flow_async n user_id phone_number chat_id message_id country api_id api_hash w =
     (case pyrogram_login_flow_body n user_id phone_number chat_id message_id country api_id api_hash w of
        (Inr r, w') \<Rightarrow> (Inr r, w')
      | (Inl e, w') \<Rightarrow> (Inr (False, Some (str_exc e)), w'))"

definition otp_doc :: "net \<Rightarrow> int \<Rightarrow> string \<Rightarrow> string \<Rightarrow> string \<Rightarrow> doc" where
  "otp_doc n user_id country phone session_string =
     [(''country'', BStr country),
      (''phone'', BStr phone),
      (''session_string'', BStr session_string),
      (''has_2fa'', BBool False),
      (''two_step_password'', BNull),
      (''status'', BStr ''active''),
      (''used'', BBool False),
      (''created_at'', BDate (utcnow n)),
      (''created_by'', BInt user_id)]"

definition verify_otp_and_save_body ::
  "net \<Rightarrow> int \<Rightarrow> string \<Rightarrow> world \<Rightarrow> (exc + outcome) \<times> world" where
  "verify_otp_and_save_body n user_id otp_code w =
     (case login_states w user_id of
        None \<Rightarrow> (Inr (False, Some ''Session expired''), w)
      | Some state \<Rightarrow>
          bind_exc (getitem ''client'' (st_client state), w) (\<lambda>client w.
          bind_exc (getitem ''manager'' (st_manager state), w) (\<lambda>manager w.
          bind_exc (getitem ''phone'' (st_phone state), w) (\<lambda>phone w.
          bind_exc (getitem ''phone_code_hash'' (st_phone_code_hash state), w) (\<lambda>phone_code_hash w.
          (case sign_in_with_otp n client phone phone_code_hash otp_code w of
             ((success, status, error), w1) \<Rightarrow>
               if status = Some ''password_required'' then
                 (Inr (False, Some ''password_required''),
                  w1\<lparr>login_states := (login_states w1)(user_id \<mapsto>
                        state\<lparr>st_step := Some ''waiting_password''\<rparr>)\<rparr>)
               else if \<not> success then
                 bind_exc (safe_disconnect n (Some client) w1) (\<lambda>u w2.
                   (Inr (False, Some (or_default error ''OTP verification failed'')),
                    pop_state user_id w2))
               else
                 (case get_session_string n client w1 of (session_string, w2) \<Rightarrow>
                    if falsy session_string then
                      (Inr (False, Some ''Failed to get session string''), w2)
                    else
                      bind_exc (getitem ''country'' (st_country state), w2) (\<lambda>country w2.
                      bind_exc (insert_one n
                                  (otp_doc n user_id country phone (string_of session_string)) w2)
                        (\<lambda>u w3.
                      bind_exc (safe_disconnect n (Some client) w3) (\<lambda>u w4.
                        (Inr (True, Some ''Account added successfully''),
                         pop_state user_id w4)))))))))))"

definition verify_otp_and_save_async ::
  "net \<Rightarrow> int \<Rightarrow> string \<Rightarrow> world \<Rightarrow> (exc + outcome) \<times> world" where
  "verify_otp_and_save_async n user_id otp_code w =
     (case verify_otp_and_save_body n user_id otp_code w of
        (Inr r, w') \<Rightarrow> (Inr r, w')
      | (Inl e, w') \<Rightarrow> (Inr (False, Some (str_exc e)), pop_state user_id w'))"

definition twofa_doc :: "net \<Rightarrow> int \<Rightarrow> string \<Rightarrow> string \<Rightarrow> string \<Rightarrow> string \<Rightarrow> doc" where
  "twofa_doc n user_id country phone session_string password =
     [(''country'', BStr country),
      (''phone'', BStr phone),
      (''session_string'', BStr session_string),
      (''has_2fa'', BBool True),
      (''two_step_password'', BStr password),
      (''status'', BStr ''active''),
      (''used'', BBool False),
      (''created_at'', BDate (utcnow n)),
      (''created_by'', BInt user_id)]"

text \<open>\<^verbatim>\<open>verify_2fa_password_async\<close> starts with \<^verbatim>\<open>state = login_states[user_id]\<close>:
  there is no membership test, a missing entry is a \<^verbatim>\<open>KeyError\<close> whose text is the
  \<^verbatim>\<open>repr\<close> of the user id.\<close>

definition verify_2fa_password_body ::
  "net \<Rightarrow> int \<Rightarrow> string \<Rightarrow> world \<Rightarrow> (exc + outcome) \<times> world" where
  "verify_2fa_password_body n user_id password w =
     bind_exc (case login_states w user_id of
                 None \<Rightarrow> Inl (KeyError (str_int user_id))
               | Some state \<Rightarrow> Inr state, w) (\<lambda>state w.
     bind_exc (getitem ''client'' (st_client state), w) (\<lambda>client w.
     bind_exc (getitem ''manager'' (st_manager state), w) (\<lambda>manager w.
     (case sign_in_with_password n client password w of
        ((success, error), w1) \<Rightarrow>
          if \<not> success then (Inr (False, error), w1)
          else
            (case get_session_string n client w1 of (session_string, w2) \<Rightarrow>
               if falsy session_string then
                 (Inr (False, Some ''Failed to get session string''), w2)
               else
                 bind_exc (getitem ''country'' (st_country state), w2) (\<lambda>country w2.
                 bind_exc (getitem ''phone'' (st_phone state), w2) (\<lambda>phone w2.
                 bind_exc (insert_one n
                             (twofa_doc n user_id country phone (string_of session_string) password)
                             w2) (\<lambda>u w3.
                 bind_exc (safe_disconnect n (Some client) w3) (\<lambda>u w4.
                   (Inr (True, Some ''Account added successfully''),
                    pop_state user_id w4))))))))))"

definition verify_2fa_password_async ::
  "net \<Rightarrow> int \<Rightarrow> string \<Rightarrow> world \<Rightarrow> (exc + outcome) \<times> world" where
  "verify_2fa_password_async n user_id password w =
     (case verify_2fa_password_body n user_id password w of
        (Inr r, w') \<Rightarrow> (Inr r, w')
      | (Inl e, w') \<Rightarrow> (Inr (False, Some (str_exc e)), pop_state user_id w'))"

section \<open>bot.py: the handlers\<close>

text \<open>\<^verbatim>\<open>str.strip()\<close>: the characters below are the ones of the Latin-1 range for
  which \<^verbatim>\<open>str.isspace\<close> holds.\<close>

definition is_space :: "char \<Rightarrow> bool" where
  "is_space c = (c \<in> set [CHR 0x09, CHR 0x0A, CHR 0x0B, CHR 0x0C, CHR 0x0D, CHR 0x1C, CHR 0x1D,
                           CHR 0x1E, CHR 0x1F, CHR 0x20, CHR 0x85, CHR 0xA0])"

definition strip :: "string \<Rightarrow> string" where
  "strip s = rev (dropWhile is_space (rev (dropWhile is_space s)))"

text \<open>\<^verbatim>\<open>await m.reply(...)\<close>: a network call; it sends the reply or raises.\<close>

definition reply :: "net \<Rightarrow> reply \<Rightarrow> world \<Rightarrow> (exc + unit) \<times> world" where
  "reply n r w =
     (case reply_r n of
        Some e \<Rightarrow> (Inl e, w)
      | None \<Rightarrow> (Inr (), w\<lparr>replies := replies w @ [r]\<rparr>))"

definition bot_doc :: "net \<Rightarrow> int \<Rightarrow> string \<Rightarrow> string \<Rightarrow> bool \<Rightarrow> doc" where
  "bot_doc n uid phone sess two_step =
     [(''user_id'', BInt uid),
      (''phone'', BStr phone),
      (''session'', BStr sess),
      (''two_step'', BBool two_step),
      (''added_at'', BDate (utcnow n))]"

definition save_account :: "net \<Rightarrow> int \<Rightarrow> string \<Rightarrow> nat \<Rightarrow> bool \<Rightarrow> world \<Rightarrow> (exc + unit) \<times> world" where
  "save_account n uid phone client two_step w =
     bind_exc (client_export_session_string n client w) (\<lambda>session w1.
     bind_exc (insert_one n (bot_doc n uid phone session two_step) w1) (\<lambda>u w2.
     client_disconnect n client w2))"

definition cleanup :: "int \<Rightarrow> world \<Rightarrow> world" where
  "cleanup uid w =
     w\<lparr>user_state := (user_state w)(uid := None), temp_clients := (temp_clients w)(uid := None)\<rparr>"

text \<open>\<^verbatim>\<open>temp_clients[uid]\<close>.\<close>

definition temp_client :: "int \<Rightarrow> world \<Rightarrow> exc + nat" where
  "temp_client uid w =
     (case temp_clients w uid of None \<Rightarrow> Inl (KeyError (str_int uid)) | Some c \<Rightarrow> Inr c)"

text \<open>
  \<^verbatim>\<open>text_handler\<close>, for a message of user \<open>uid\<close> with text \<open>text\<close>. Nothing in it
  catches an exception except the two handlers around \<^verbatim>\<open>send_code\<close> and the
  \<^verbatim>\<open>SessionPasswordNeeded\<close> handler around \<^verbatim>\<open>sign_in\<close>, so the result may be an
  exception.
\<close>

definition text_handler :: "net \<Rightarrow> int \<Rightarrow> string \<Rightarrow> world \<Rightarrow> (exc + unit) \<times> world" where
  "text_handler n uid text w =
     (case user_state w uid of
        None \<Rightarrow> (Inr (), w)
      | Some data \<Rightarrow>
          if b_step data = ''phone'' then
            (case create_client w of (client, w1) \<Rightarrow>
               bind_exc (client_connect n client w1) (\<lambda>u w2.
                 (case client_send_code n client (strip text) w2 of
                    (Inl (FloodWait v s), w3) \<Rightarrow>
                      bind_exc (reply n (ReplyFloodWait v) w3) (\<lambda>u w4.
                        client_disconnect n client w4)
                  | (Inl e, w3) \<Rightarrow>
                      bind_exc (reply n (ReplyFailedToSend (str_exc e)) w3) (\<lambda>u w4.
                        client_disconnect n client w4)
                  | (Inr phone_code_hash, w3) \<Rightarrow>
                      reply n ReplyOtpSent
                        (w3\<lparr>temp_clients := (temp_clients w3)(uid \<mapsto> client),
                            user_state := (user_state w3)(uid \<mapsto>
                              \<lparr>b_step = ''otp'', b_phone = Some (strip text),
                               b_hash = Some phone_code_hash\<rparr>)\<rparr>))))
          else if b_step data = ''otp'' then
            bind_exc (temp_client uid w, w) (\<lambda>client w.
            bind_exc (getitem ''phone'' (b_phone data), w) (\<lambda>phone w.
            bind_exc (getitem ''hash'' (b_hash data), w) (\<lambda>hash w.
              (case client_sign_in n client phone hash (strip text) w of
                 (Inl (SessionPasswordNeeded s), w1) \<Rightarrow>
                   reply n ReplySendPassword
                     (w1\<lparr>user_state := (user_state w1)(uid \<mapsto> data\<lparr>b_step := ''password''\<rparr>)\<rparr>)
               | (Inl e, w1) \<Rightarrow> (Inl e, w1)
               | (Inr u, w1) \<Rightarrow>
                   bind_exc (save_account n uid phone client False w1) (\<lambda>u w2.
                   bind_exc (reply n ReplyAccountAdded w2) (\<lambda>u w3.
                     (Inr (), cleanup uid w3)))))))
          else if b_step data = ''password'' then
            bind_exc (temp_client uid w, w) (\<lambda>client w.
            bind_exc (client_check_password n client (strip text) w) (\<lambda>u w1.
            bind_exc (getitem ''phone'' (b_phone data), w1) (\<lambda>phone w1.
            bind_exc (save_account n uid phone client True w1) (\<lambda>u w2.
            bind_exc (reply n ReplyAccountAdded w2) (\<lambda>u w3.
              (Inr (), cleanup uid w3))))))
          else (Inr (), w))"

text \<open>The \<^verbatim>\<open>"add"\<close> branch of \<^verbatim>\<open>callbacks\<close>: the entry is overwritten whatever it
  was, \<^verbatim>\<open>temp_clients\<close> is not touched.\<close>

definition callbacks_add :: "net \<Rightarrow> int \<Rightarrow> world \<Rightarrow> (exc + unit) \<times> world" where
  "callbacks_add n uid w =
     reply n ReplySendPhone
       (w\<lparr>user_state := (user_state w)(uid \<mapsto> \<lparr>b_step = ''phone'', b_phone = None, b_hash = None\<rparr>)\<rparr>)"

text \<open>
  \<^verbatim>\<open>accounts_col.find_one(query)\<close>: the first document, in insertion order, in which
  every field of the query has the query's value. The lookup of the \<^verbatim>\<open>"otp_"\<close> and
  \<^verbatim>\<open>"logout_"\<close> branches of \<^verbatim>\<open>callbacks\<close> is \<open>find_account\<close>.
\<close>

definition matches :: "doc \<Rightarrow> doc \<Rightarrow> bool" where
  "matches query d = list_all (\<lambda>kv. map_of d (fst kv) = Some (snd kv)) query"

definition find_one :: "doc \<Rightarrow> doc list \<Rightarrow> doc option" where
  "find_one query col = List.find (matches query) col"

definition find_account :: "int \<Rightarrow> string \<Rightarrow> world \<Rightarrow> doc option" where
  "find_account uid phone w =
     find_one [(''user_id'', BInt uid), (''phone'', BStr phone)] (accounts_col w)"

section \<open>bot.py: fetch_latest_otp\<close>

text \<open>
  Message texts are Python strings, sequences of Unicode code points. The pattern
  \<^verbatim>\<open>\b\d{5}\b\<close> depends on two character classes of the \<^verbatim>\<open>re\<close> module, the decimal
  digits (\<^verbatim>\<open>\d\<close>) and the word characters (\<^verbatim>\<open>\w\<close>), which are parameters here; the
  character type is left open.
\<close>

record 'c charclass =
  is_digit :: "'c \<Rightarrow> bool"
  is_word :: "'c \<Rightarrow> bool"

definition word_at :: "'c charclass \<Rightarrow> 'c list \<Rightarrow> nat \<Rightarrow> bool" where
  "word_at u s i = (i < length s \<and> is_word u (s ! i))"

text \<open>\<^verbatim>\<open>\b\<close> at position \<open>i\<close>: exactly one of the characters before and after the
  position is a word character; outside the string there is none.\<close>

definition boundary :: "'c charclass \<Rightarrow> 'c list \<Rightarrow> nat \<Rightarrow> bool" where
  "boundary u s i = ((0 < i \<and> word_at u s (i - 1)) \<noteq> word_at u s i)"

definition match_at :: "'c charclass \<Rightarrow> 'c list \<Rightarrow> nat \<Rightarrow> bool" where
  "match_at u s i =
     (boundary u s i \<and> i + 5 \<le> length s \<and> list_all (is_digit u) (take 5 (drop i s))
      \<and> boundary u s (i + 5))"

text \<open>\<^verbatim>\<open>re.search(pattern, text)\<close> followed by \<^verbatim>\<open>m.group()\<close>: the match at the leftmost
  position where the pattern matches.\<close>

definition re_search :: "'c charclass \<Rightarrow> 'c list \<Rightarrow> 'c list option" where
  "re_search u s =
     (case List.find (match_at u s) [0..<Suc (length s)] of
        None \<Rightarrow> None
      | Some i \<Rightarrow> Some (take 5 (drop i s)))"

text \<open>\<^verbatim>\<open>client.get_chat_history(chat_id, limit=...)\<close>: the texts of the newest messages
  of the chat, newest first (\<open>None\<close> for a message without text).\<close>

definition get_chat_history :: "(int \<Rightarrow> 'c list option list) \<Rightarrow> int \<Rightarrow> nat \<Rightarrow> 'c list option list" where
  "get_chat_history chats chat_id limit = take limit (chats chat_id)"

fun fetch_loop :: "'c charclass \<Rightarrow> 'c list option list \<Rightarrow> 'c list option" where
  "fetch_loop u [] = None"
| "fetch_loop u (msg # rest) =
     (case msg of
        None \<Rightarrow> fetch_loop u rest
      | Some t \<Rightarrow>
          if t = [] then fetch_loop u rest
          else (case re_search u t of None \<Rightarrow> fetch_loop u rest | Some g \<Rightarrow> Some g))"

definition fetch_latest_otp :: "'c charclass \<Rightarrow> (int \<Rightarrow> 'c list option list) \<Rightarrow> 'c list option" where
  "fetch_latest_otp u chats = fetch_loop u (get_chat_history chats 777000 20)"

section \<open>Concrete inputs\<close>

text \<open>A run in which every call succeeds.\<close>

definition ex_net :: net where
  "ex_net = \<lparr>connect_r = None, send_code_r = Inr ''hash1'', sign_in_r = None,
             check_password_r = None, get_me_r = Inr True,
             export_session_string_r = Inr ''SESSION'', session_stop_r = None,
             disconnect_r = None, insert_one_r = None, reply_r = None,
             utcnow = 1700000000\<rparr>"

definition new_client :: client where
  "new_client = \<lparr>is_connected = Some False, session = Some False\<rparr>"

definition open_client :: client where
  "open_client = \<lparr>is_connected = Some True, session = Some True\<rparr>"

definition ex_empty :: world where
  "ex_empty = \<lparr>clients = (\<lambda>c. new_client), next_client = 0, trace = [],
               login_states = Map.empty, accounts_col = [], user_state = Map.empty,
               temp_clients = Map.empty, replies = []\<rparr>"

text \<open>The entry of user 7 as \<^verbatim>\<open>pyrogram_login_flow_async\<close> leaves it once the code is
  sent, and the world around it: client 0 is connected.\<close>

definition ex_entry :: login_state where
  "ex_entry = \<lparr>st_client = Some 0, st_phone = Some ''+15551234567'',
               st_phone_code_hash = Some ''hash1'', st_step = Some ''waiting_otp'',
               st_manager = Some (6435225, ''4e98''), st_country = Some ''US'',
               st_api_id = Some 6435225, st_api_hash = Some ''4e98''\<rparr>"

definition ex_waiting_otp :: world where
  "ex_waiting_otp =
     ex_empty\<lparr>clients := (clients ex_empty)(0 := open_client), next_client := 1,
              trace := [Connect 0, SendCode 0 ''+15551234567''],
              login_states := [7 \<mapsto> ex_entry]\<rparr>"

text \<open>The same run, except that the identity probe of \<^verbatim>\<open>get_session_string\<close> fails, that
  the insert fails, or that \<^verbatim>\<open>send_code\<close> is rate limited for 30 seconds.\<close>

definition ex_net_export_fails :: net where
  "ex_net_export_fails = ex_net\<lparr>get_me_r := Inl (OtherError ''AUTH_KEY_UNREGISTERED'')\<rparr>"

definition ex_net_insert_fails :: net where
  "ex_net_insert_fails = ex_net\<lparr>insert_one_r := Some (OtherError ''db down'')\<rparr>"

definition ex_net_flood :: net where
  "ex_net_flood = ex_net\<lparr>send_code_r := Inl (FloodWait 30 ''FLOOD_WAIT_30'')\<rparr>"

text \<open>An entry that holds a step and nothing else, as a caller creates it before the
  phone number arrives, and the entry of user 7 once the password is awaited.\<close>

definition ex_phone_entry :: login_state where
  "ex_phone_entry = \<lparr>st_client = None, st_phone = None, st_phone_code_hash = None,
                     st_step = Some ''waiting_phone'', st_manager = None, st_country = None,
                     st_api_id = None, st_api_hash = None\<rparr>"

definition ex_waiting_phone :: world where
  "ex_waiting_phone = ex_empty\<lparr>login_states := [7 \<mapsto> ex_phone_entry]\<rparr>"

definition ex_waiting_password :: world where
  "ex_waiting_password =
     ex_waiting_otp\<lparr>trace := trace ex_waiting_otp @ [SignIn 0 ''+15551234567'' ''hash1'' ''54321''],
                    login_states := [7 \<mapsto> ex_entry\<lparr>st_step := Some ''waiting_password''\<rparr>]\<rparr>"

text \<open>A record that an earlier login of user 7 left for the same phone number, with
  another password, and the world of \<open>ex_waiting_password\<close> with that record stored.\<close>

definition ex_old_doc :: doc where
  "ex_old_doc = twofa_doc ex_net 7 ''US'' ''+15551234567'' ''OLDSESSION'' ''oldpass''"

definition ex_second_login :: world where
  "ex_second_login = ex_waiting_password\<lparr>accounts_col := [ex_old_doc]\<rparr>"

text \<open>\<^verbatim>\<open>bot.py\<close>: user 7 pressed "add" in the empty world; user 7 then sent the phone
  number and awaits the code, client 0 connected; and user 7 pressed "add" again at that
  point.\<close>

definition ex_bot_phone :: world where
  "ex_bot_phone =
     ex_empty\<lparr>user_state := [7 \<mapsto> \<lparr>b_step = ''phone'', b_phone = None, b_hash = None\<rparr>],
              replies := [ReplySendPhone]\<rparr>"

definition ex_bot_otp :: world where
  "ex_bot_otp =
     ex_empty\<lparr>clients := (clients ex_empty)(0 := open_client), next_client := 1,
              trace := [Connect 0, SendCode 0 ''+15551234567''],
              user_state := [7 \<mapsto> \<lparr>b_step = ''otp'', b_phone = Some ''+15551234567'',
                                   b_hash = Some ''hash1''\<rparr>],
              temp_clients := [7 \<mapsto> 0],
              replies := [ReplySendPhone, ReplyOtpSent]\<rparr>"

definition ex_bot_again :: world where
  "ex_bot_again =
     ex_bot_otp\<lparr>user_state := [7 \<mapsto> \<lparr>b_step = ''phone'', b_phone = None, b_hash = None\<rparr>],
                replies := [ReplySendPhone, ReplyOtpSent, ReplySendPhone]\<rparr>"

text \<open>The character classes restricted to ASCII, and a history of the service chat,
  newest message first.\<close>

definition ascii :: "char charclass" where
  "ascii = \<lparr>is_digit = (\<lambda>c. c \<in> set ''0123456789''),
            is_word = (\<lambda>c. c \<in> set
              ''0123456789_abcdefghijklmnopqrstuvwxyzABCDEFGHIJKLMNOPQRSTUVWXYZ'')\<rparr>"

definition ex_chats :: "int \<Rightarrow> string option list" where
  "ex_chats chat_id =
     (if chat_id = 777000
      then [Some ''Login code: 123456'', None, Some ''Your code is 54321. Do not share it'',
            Some ''Login code: 11111'']
      else [Some ''code 99999''])"

section \<open>Basic facts\<close>

lemma bind_exc_simps [simp]:
  "bind_exc (Inl e, s) k = (Inl e, s)"
  "bind_exc (Inr v, s) k = k v s"
  by (simp_all add: bind_exc_def)

lemmas prim_defs =
  client_connect_def client_disconnect_def session_stop_def client_send_code_def
  client_sign_in_def client_check_password_def client_get_me_def
  client_export_session_string_def log_call_def set_client_def Let_def attr_truthy_def
  getitem_def repr_str_def or_default_def falsy_def string_of_def insert_one_def pop_state_def

lemmas mgr_defs =
  create_client_def safe_disconnect_def safe_disconnect_body_def send_code_def
  send_code_body_def sign_in_with_otp_def sign_in_with_otp_body_def sign_in_with_password_def
  sign_in_with_password_body_def get_session_string_def

lemmas flow_defs =
  pyrogram_login_flow_async_def pyrogram_login_flow_body_def verify_otp_and_save_async_def
  verify_otp_and_save_body_def verify_2fa_password_async_def verify_2fa_password_body_def
  otp_doc_def twofa_doc_def

lemmas bot_defs = text_handler_def callbacks_add_def save_account_def bot_doc_def cleanup_def
  reply_def temp_client_def strip_def is_space_def

lemmas ex_defs =
  ex_net_def new_client_def open_client_def ex_empty_def ex_entry_def ex_waiting_otp_def
  ex_net_export_fails_def ex_net_insert_fails_def ex_net_flood_def ex_phone_entry_def
  ex_waiting_phone_def ex_waiting_password_def ex_old_doc_def ex_second_login_def
  ex_bot_phone_def ex_bot_otp_def ex_bot_again_def

text \<open>The concrete worlds are states the code reaches.\<close>

lemma ex_waiting_otp_reached:
  "snd (pyrogram_login_flow_async ex_net 7 ''+15551234567'' 100 200 ''US'' 6435225 ''4e98''
          ex_waiting_phone) = ex_waiting_otp"
  by (simp add: flow_defs mgr_defs prim_defs ex_defs)

lemma ex_waiting_password_reached:
  "snd (verify_otp_and_save_async (ex_net\<lparr>sign_in_r := Some (SessionPasswordNeeded ''2fa'')\<rparr>)
          7 ''54321'' ex_waiting_otp) = ex_waiting_password"
  by (simp add: flow_defs mgr_defs prim_defs ex_defs)

lemma ex_bot_phone_reached: "snd (callbacks_add ex_net 7 ex_empty) = ex_bot_phone"
  by (simp add: bot_defs ex_defs)

lemma ex_bot_otp_reached: "snd (text_handler ex_net 7 '' +15551234567 '' ex_bot_phone) = ex_bot_otp"
  by (simp add: bot_defs mgr_defs prim_defs ex_defs)

lemma ex_bot_again_reached: "snd (callbacks_add ex_net 7 ex_bot_otp) = ex_bot_again"
  by (simp add: bot_defs ex_defs)

lemma safe_disconnect_fst: "fst (safe_disconnect n client p) = Inr ()"
  by (simp add: safe_disconnect_def split: prod.splits sum.splits)

lemma safe_disconnect_not_connected:
  "\<not> attr_truthy (is_connected (clients p c)) \<Longrightarrow> safe_disconnect n (Some c) p = (Inr (), p)"
  by (simp add: safe_disconnect_def safe_disconnect_body_def)

lemma safe_disconnect_trace:
  "attr_truthy (is_connected (clients p c)) \<Longrightarrow>
   trace (snd (safe_disconnect n (Some c) p)) =
     trace p @ (if attr_truthy (session (clients p c)) then [SessionStop c] else []) @ [Disconnect c]"
  by (auto simp add: safe_disconnect_def safe_disconnect_body_def session_stop_def
      client_disconnect_def log_call_def set_client_def Let_def
      split: prod.splits sum.splits option.splits)

section \<open>safe_disconnect\<close>

text \<open>
  Claim C9. \<^verbatim>\<open>safe_disconnect\<close> never raises, whatever the handle and whatever the
  library answers: its result is always a normal return. On \<^verbatim>\<open>None\<close> and on a client
  that is not connected it does nothing, so it may be called on a handle that was never
  connected, and called again after a first call. On a connected client that has an
  inner session object the session is stopped first and the client disconnected after
  it; the trace is the same whether or not the stop raised, so its error is swallowed.
\<close>

theorem safe_disconnect_never_raises:
  "fst (safe_disconnect n client p) = Inr ()
   \<and> safe_disconnect n None p = (Inr (), p)
   \<and> (\<not> attr_truthy (is_connected (clients p c)) \<longrightarrow> safe_disconnect n (Some c) p = (Inr (), p))
   \<and> fst (safe_disconnect n' client (snd (safe_disconnect n client p))) = Inr ()
   \<and> (attr_truthy (is_connected (clients p c)) \<longrightarrow>
        trace (snd (safe_disconnect n (Some c) p)) =
          trace p @ (if attr_truthy (session (clients p c)) then [SessionStop c] else [])
                  @ [Disconnect c])"
proof -
  have "safe_disconnect n None p = (Inr (), p)"
    by (simp add: safe_disconnect_def safe_disconnect_body_def)
  then show ?thesis
    by (simp add: safe_disconnect_fst safe_disconnect_not_connected safe_disconnect_trace)
qed

theorem safe_disconnect_never_raises_witness:
  "attr_truthy (is_connected (clients ex_waiting_otp 0))
   \<and> session_stop_r (ex_net\<lparr>session_stop_r := Some (OtherError ''stop failed'')\<rparr>)
       = Some (OtherError ''stop failed'')
   \<and> fst (safe_disconnect (ex_net\<lparr>session_stop_r := Some (OtherError ''stop failed'')\<rparr>)
            (Some 0) ex_waiting_otp) = Inr ()
   \<and> trace (snd (safe_disconnect (ex_net\<lparr>session_stop_r := Some (OtherError ''stop failed'')\<rparr>)
                   (Some 0) ex_waiting_otp))
       = [Connect 0, SendCode 0 ''+15551234567'', SessionStop 0, Disconnect 0]
   \<and> \<not> attr_truthy (is_connected (clients ex_empty 0))
   \<and> safe_disconnect ex_net (Some 0) ex_empty = (Inr (), ex_empty)"
  using safe_disconnect_never_raises
          [of "ex_net\<lparr>session_stop_r := Some (OtherError ''stop failed'')\<rparr>" "Some 0"
              ex_waiting_otp 0 ex_net]
        safe_disconnect_never_raises [of ex_net "Some 0" ex_empty 0 ex_net]
  by (simp add: ex_defs attr_truthy_def)

section \<open>What the manager's methods leave unchanged\<close>

lemma sign_in_with_otp_frame:
  "login_states (snd (sign_in_with_otp n c ph h code w)) = login_states w"
  "accounts_col (snd (sign_in_with_otp n c ph h code w)) = accounts_col w"
  "count_list (trace (snd (sign_in_with_otp n c ph h code w))) (Disconnect d)
     = count_list (trace w) (Disconnect d)"
  by (auto simp add: sign_in_with_otp_def sign_in_with_otp_body_def client_connect_def
       client_sign_in_def log_call_def set_client_def Let_def
       split: option.splits sum.splits prod.splits exc.splits)

lemma sign_in_with_otp_connected:
  "fst (sign_in_with_otp n c ph h code w) = (True, None, None) \<Longrightarrow>
   attr_truthy (is_connected (clients (snd (sign_in_with_otp n c ph h code w)) c))"
  by (auto simp add: sign_in_with_otp_def sign_in_with_otp_body_def client_connect_def
       client_sign_in_def log_call_def set_client_def Let_def attr_truthy_def
       split: option.splits sum.splits prod.splits exc.splits if_splits)

lemma sign_in_with_password_frame:
  "login_states (snd (sign_in_with_password n c pw w)) = login_states w"
  "accounts_col (snd (sign_in_with_password n c pw w)) = accounts_col w"
  by (auto simp add: sign_in_with_password_def sign_in_with_password_body_def client_connect_def
       client_check_password_def log_call_def set_client_def Let_def
       split: option.splits sum.splits prod.splits exc.splits)

lemma sign_in_with_password_count:
  "count_list (trace (snd (sign_in_with_password n c pw w))) (Disconnect d)
     = count_list (trace w) (Disconnect d)"
  by (auto simp add: sign_in_with_password_def sign_in_with_password_body_def client_connect_def
       client_check_password_def log_call_def set_client_def Let_def
       split: option.splits sum.splits prod.splits exc.splits)

lemma sign_in_with_password_connected:
  "fst (sign_in_with_password n c pw w) = (True, None) \<Longrightarrow>
   attr_truthy (is_connected (clients (snd (sign_in_with_password n c pw w)) c))"
  by (auto simp add: sign_in_with_password_def sign_in_with_password_body_def client_connect_def
       client_check_password_def log_call_def set_client_def Let_def attr_truthy_def
       split: option.splits sum.splits prod.splits exc.splits if_splits)

lemma get_session_string_frame:
  "login_states (snd (get_session_string n c w)) = login_states w"
  "accounts_col (snd (get_session_string n c w)) = accounts_col w"
  "count_list (trace (snd (get_session_string n c w))) (Disconnect d)
     = count_list (trace w) (Disconnect d)"
  by (auto simp add: get_session_string_def client_connect_def client_get_me_def
       client_export_session_string_def log_call_def set_client_def Let_def
       split: option.splits sum.splits prod.splits exc.splits)

lemma get_session_string_connected:
  "attr_truthy (is_connected (clients w c)) \<Longrightarrow>
   attr_truthy (is_connected (clients (snd (get_session_string n c w)) c))"
  by (auto simp add: get_session_string_def client_connect_def client_get_me_def
       client_export_session_string_def log_call_def set_client_def Let_def
       split: option.splits sum.splits prod.splits exc.splits)

lemma safe_disconnect_frame:
  "login_states (snd (safe_disconnect n client w)) = login_states w"
  "accounts_col (snd (safe_disconnect n client w)) = accounts_col w"
  by (auto simp add: safe_disconnect_def safe_disconnect_body_def session_stop_def
      client_disconnect_def log_call_def set_client_def Let_def
      split: prod.splits sum.splits option.splits)

lemma safe_disconnect_count:
  "attr_truthy (is_connected (clients w c)) \<Longrightarrow>
   count_list (trace (snd (safe_disconnect n (Some c) w))) (Disconnect c)
     = count_list (trace w) (Disconnect c) + 1"
  by (simp add: safe_disconnect_trace)

lemma pop_state_absent: "login_states w user_id = None \<Longrightarrow> pop_state user_id w = w"
  by (simp add: pop_state_def fun_upd_idem)

section \<open>Failure of the credential export\<close>

text \<open>
  Claim C1 says that an attempt whose code verification succeeded and whose credential
  export then failed ends with the entry removed and the connection disconnected, and
  that no record without a credential is written. The theorem states what
  \<^verbatim>\<open>verify_otp_and_save_async\<close> does on that path: it returns the failure
  "Failed to get session string" and writes no record, but the entry of the user is
  still in \<^verbatim>\<open>login_states\<close>, no \<^verbatim>\<open>disconnect\<close> was called on the client, and the
  client is still connected. The branch \<^verbatim>\<open>if not success\<close> just above it in the source
  disconnects and removes the entry; this one returns early.
\<close>

theorem verify_otp_export_failure_keeps_session:
  assumes st: "login_states w user_id = Some state"
    and c: "st_client state = Some c" and m: "st_manager state = Some m"
    and ph: "st_phone state = Some phone" and h: "st_phone_code_hash state = Some h"
    and si: "fst (sign_in_with_otp n c phone h code w) = (True, None, None)"
    and gs: "falsy (fst (get_session_string n c (snd (sign_in_with_otp n c phone h code w))))"
  shows "fst (verify_otp_and_save_async n user_id code w)
           = Inr (False, Some ''Failed to get session string'')
    \<and> accounts_col (snd (verify_otp_and_save_async n user_id code w)) = accounts_col w
    \<and> login_states (snd (verify_otp_and_save_async n user_id code w)) = login_states w
    \<and> count_list (trace (snd (verify_otp_and_save_async n user_id code w))) (Disconnect c)
         = count_list (trace w) (Disconnect c)
    \<and> attr_truthy (is_connected (clients (snd (verify_otp_and_save_async n user_id code w)) c))"
proof -
  define w1 where "w1 = snd (sign_in_with_otp n c phone h code w)"
  define w2 where "w2 = snd (get_session_string n c w1)"
  define x where "x = fst (get_session_string n c w1)"
  have s1: "sign_in_with_otp n c phone h code w = ((True, None, None), w1)"
    using si by (simp add: w1_def prod_eq_iff)
  have s2: "get_session_string n c w1 = (x, w2)"
    by (simp add: w2_def x_def)
  have fx: "falsy x"
    using gs by (simp add: x_def w1_def)
  have res: "verify_otp_and_save_async n user_id code w =
      (Inr (False, Some ''Failed to get session string''), w2)"
    by (simp add: verify_otp_and_save_async_def verify_otp_and_save_body_def st c m ph h
        getitem_def s1 s2 fx)
  have con1: "attr_truthy (is_connected (clients w1 c))"
    unfolding w1_def using si by (rule sign_in_with_otp_connected)
  have con2: "attr_truthy (is_connected (clients w2 c))"
    unfolding w2_def using con1 by (rule get_session_string_connected)
  show ?thesis
    by (simp add: res con2)
       (simp add: w2_def get_session_string_frame w1_def sign_in_with_otp_frame)
qed

theorem verify_otp_export_failure_keeps_session_witness:
  "fst (sign_in_with_otp ex_net_export_fails 0 ''+15551234567'' ''hash1'' ''54321'' ex_waiting_otp)
     = (True, None, None)
   \<and> fst (get_session_string ex_net_export_fails 0
             (snd (sign_in_with_otp ex_net_export_fails 0 ''+15551234567'' ''hash1'' ''54321''
                     ex_waiting_otp))) = None
   \<and> fst (verify_otp_and_save_async ex_net_export_fails 7 ''54321'' ex_waiting_otp)
       = Inr (False, Some ''Failed to get session string'')
   \<and> login_states (snd (verify_otp_and_save_async ex_net_export_fails 7 ''54321'' ex_waiting_otp)) 7
       = Some ex_entry
   \<and> count_list (trace (snd (verify_otp_and_save_async ex_net_export_fails 7 ''54321''
                               ex_waiting_otp))) (Disconnect 0) = 0
   \<and> attr_truthy (is_connected (clients (snd (verify_otp_and_save_async ex_net_export_fails 7
                                                ''54321'' ex_waiting_otp)) 0))"
proof -
  have a: "fst (sign_in_with_otp ex_net_export_fails 0 ''+15551234567'' ''hash1'' ''54321''
             ex_waiting_otp) = (True, None, None)"
    by (simp add: mgr_defs prim_defs ex_defs)
  have b: "fst (get_session_string ex_net_export_fails 0
             (snd (sign_in_with_otp ex_net_export_fails 0 ''+15551234567'' ''hash1'' ''54321''
                     ex_waiting_otp))) = None"
    by (simp add: mgr_defs prim_defs ex_defs)
  have st: "login_states ex_waiting_otp 7 = Some ex_entry"
    by (simp add: ex_waiting_otp_def)
  have e: "st_client ex_entry = Some 0" "st_manager ex_entry = Some (6435225, ''4e98'')"
    "st_phone ex_entry = Some ''+15551234567''" "st_phone_code_hash ex_entry = Some ''hash1''"
    by (simp_all add: ex_entry_def)
  have f: "falsy (fst (get_session_string ex_net_export_fails 0
             (snd (sign_in_with_otp ex_net_export_fails 0 ''+15551234567'' ''hash1'' ''54321''
                     ex_waiting_otp))))"
    by (simp add: b falsy_def)
  have t: "count_list (trace ex_waiting_otp) (Disconnect 0) = 0"
    by (simp add: ex_defs)
  show ?thesis
    using verify_otp_export_failure_keeps_session [OF st e a f] a b st t by simp
qed

text \<open>The password handler returns early in the same way.\<close>

lemma verify_2fa_export_failure_keeps_session:
  assumes st: "login_states w user_id = Some state"
    and c: "st_client state = Some c" and m: "st_manager state = Some m"
    and si: "fst (sign_in_with_password n c password w) = (True, None)"
    and gs: "falsy (fst (get_session_string n c (snd (sign_in_with_password n c password w))))"
  shows "fst (verify_2fa_password_async n user_id password w)
           = Inr (False, Some ''Failed to get session string'')
    \<and> accounts_col (snd (verify_2fa_password_async n user_id password w)) = accounts_col w
    \<and> login_states (snd (verify_2fa_password_async n user_id password w)) = login_states w
    \<and> count_list (trace (snd (verify_2fa_password_async n user_id password w))) (Disconnect c)
         = count_list (trace w) (Disconnect c)
    \<and> attr_truthy (is_connected (clients (snd (verify_2fa_password_async n user_id password w)) c))"
proof -
  define w1 where "w1 = snd (sign_in_with_password n c password w)"
  define w2 where "w2 = snd (get_session_string n c w1)"
  define x where "x = fst (get_session_string n c w1)"
  have s1: "sign_in_with_password n c password w = ((True, None), w1)"
    using si by (simp add: w1_def prod_eq_iff)
  have s2: "get_session_string n c w1 = (x, w2)"
    by (simp add: w2_def x_def)
  have fx: "falsy x"
    using gs by (simp add: x_def w1_def)
  have res: "verify_2fa_password_async n user_id password w =
      (Inr (False, Some ''Failed to get session string''), w2)"
    by (simp add: verify_2fa_password_async_def verify_2fa_password_body_def st c m
        getitem_def s1 s2 fx)
  have con1: "attr_truthy (is_connected (clients w1 c))"
    unfolding w1_def using si by (rule sign_in_with_password_connected)
  have con2: "attr_truthy (is_connected (clients w2 c))"
    unfolding w2_def using con1 by (rule get_session_string_connected)
  show ?thesis
    by (simp add: res con2)
       (simp add: w2_def get_session_string_frame w1_def sign_in_with_password_frame
          sign_in_with_password_count)
qed

section \<open>An exception during finalization\<close>

text \<open>
  Claim C2 says that every terminal transition, an unexpected exception included,
  disconnects the session exactly once. The theorem states what
  \<^verbatim>\<open>verify_otp_and_save_async\<close> does when \<^verbatim>\<open>insert_one\<close> raises after a successful
  sign-in and export: the \<^verbatim>\<open>except\<close> clause removes the entry and returns the text of
  the exception, no \<^verbatim>\<open>disconnect\<close> was called on the client, and the client is still
  connected although no entry refers to it any more.
\<close>

theorem verify_otp_exception_skips_disconnect:
  assumes st: "login_states w user_id = Some state"
    and c: "st_client state = Some c" and m: "st_manager state = Some m"
    and ph: "st_phone state = Some phone" and h: "st_phone_code_hash state = Some h"
    and co: "st_country state = Some country"
    and si: "fst (sign_in_with_otp n c phone h code w) = (True, None, None)"
    and gs: "fst (get_session_string n c (snd (sign_in_with_otp n c phone h code w))) = Some s"
    and s: "s \<noteq> []"
    and ins: "insert_one_r n = Some e"
  shows "fst (verify_otp_and_save_async n user_id code w) = Inr (False, Some (str_exc e))
    \<and> login_states (snd (verify_otp_and_save_async n user_id code w))
         = (login_states w)(user_id := None)
    \<and> accounts_col (snd (verify_otp_and_save_async n user_id code w)) = accounts_col w
    \<and> count_list (trace (snd (verify_otp_and_save_async n user_id code w))) (Disconnect c)
         = count_list (trace w) (Disconnect c)
    \<and> attr_truthy (is_connected (clients (snd (verify_otp_and_save_async n user_id code w)) c))"
proof -
  define w1 where "w1 = snd (sign_in_with_otp n c phone h code w)"
  define w2 where "w2 = snd (get_session_string n c w1)"
  have s1: "sign_in_with_otp n c phone h code w = ((True, None, None), w1)"
    using si by (simp add: w1_def prod_eq_iff)
  have s2: "get_session_string n c w1 = (Some s, w2)"
    using gs by (simp add: w1_def w2_def prod_eq_iff)
  have res: "verify_otp_and_save_async n user_id code w =
      (Inr (False, Some (str_exc e)), pop_state user_id w2)"
    using s by (simp add: verify_otp_and_save_async_def verify_otp_and_save_body_def st c m ph h
        co getitem_def s1 s2 falsy_def string_of_def insert_one_def ins)
  have con1: "attr_truthy (is_connected (clients w1 c))"
    unfolding w1_def using si by (rule sign_in_with_otp_connected)
  have con2: "attr_truthy (is_connected (clients w2 c))"
    unfolding w2_def using con1 by (rule get_session_string_connected)
  show ?thesis
    by (simp add: res con2 pop_state_def)
       (simp add: w2_def get_session_string_frame w1_def sign_in_with_otp_frame)
qed

theorem verify_otp_exception_skips_disconnect_witness:
  "fst (sign_in_with_otp ex_net_insert_fails 0 ''+15551234567'' ''hash1'' ''54321'' ex_waiting_otp)
     = (True, None, None)
   \<and> fst (get_session_string ex_net_insert_fails 0
             (snd (sign_in_with_otp ex_net_insert_fails 0 ''+15551234567'' ''hash1'' ''54321''
                     ex_waiting_otp))) = Some ''SESSION''
   \<and> insert_one_r ex_net_insert_fails = Some (OtherError ''db down'')
   \<and> fst (verify_otp_and_save_async ex_net_insert_fails 7 ''54321'' ex_waiting_otp)
       = Inr (False, Some ''db down'')
   \<and> login_states (snd (verify_otp_and_save_async ex_net_insert_fails 7 ''54321'' ex_waiting_otp)) 7
       = None
   \<and> count_list (trace (snd (verify_otp_and_save_async ex_net_insert_fails 7 ''54321''
                               ex_waiting_otp))) (Disconnect 0) = 0
   \<and> attr_truthy (is_connected (clients (snd (verify_otp_and_save_async ex_net_insert_fails 7
                                                ''54321'' ex_waiting_otp)) 0))"
proof -
  have a: "fst (sign_in_with_otp ex_net_insert_fails 0 ''+15551234567'' ''hash1'' ''54321''
             ex_waiting_otp) = (True, None, None)"
    by (simp add: mgr_defs prim_defs ex_defs)
  have b: "fst (get_session_string ex_net_insert_fails 0
             (snd (sign_in_with_otp ex_net_insert_fails 0 ''+15551234567'' ''hash1'' ''54321''
                     ex_waiting_otp))) = Some ''SESSION''"
    by (simp add: mgr_defs prim_defs ex_defs)
  have i: "insert_one_r ex_net_insert_fails = Some (OtherError ''db down'')"
    by (simp add: ex_defs)
  have st: "login_states ex_waiting_otp 7 = Some ex_entry"
    by (simp add: ex_waiting_otp_def)
  have e: "st_client ex_entry = Some 0" "st_manager ex_entry = Some (6435225, ''4e98'')"
    "st_phone ex_entry = Some ''+15551234567''" "st_phone_code_hash ex_entry = Some ''hash1''"
    "st_country ex_entry = Some ''US''"
    by (simp_all add: ex_entry_def)
  have t: "count_list (trace ex_waiting_otp) (Disconnect 0) = 0"
    by (simp add: ex_defs)
  have ne: "''SESSION'' \<noteq> []" by simp
  show ?thesis
    using verify_otp_exception_skips_disconnect [OF st e a b ne i] a b i st t by simp
qed

text \<open>The \<^verbatim>\<open>except\<close> clause of the password handler is the same.\<close>

lemma verify_2fa_exception_skips_disconnect:
  assumes st: "login_states w user_id = Some state"
    and c: "st_client state = Some c" and m: "st_manager state = Some m"
    and ph: "st_phone state = Some phone" and co: "st_country state = Some country"
    and si: "fst (sign_in_with_password n c password w) = (True, None)"
    and gs: "fst (get_session_string n c (snd (sign_in_with_password n c password w))) = Some s"
    and s: "s \<noteq> []"
    and ins: "insert_one_r n = Some e"
  shows "fst (verify_2fa_password_async n user_id password w) = Inr (False, Some (str_exc e))
    \<and> login_states (snd (verify_2fa_password_async n user_id password w))
         = (login_states w)(user_id := None)
    \<and> count_list (trace (snd (verify_2fa_password_async n user_id password w))) (Disconnect c)
         = count_list (trace w) (Disconnect c)
    \<and> attr_truthy (is_connected (clients (snd (verify_2fa_password_async n user_id password w)) c))"
proof -
  define w1 where "w1 = snd (sign_in_with_password n c password w)"
  define w2 where "w2 = snd (get_session_string n c w1)"
  have s1: "sign_in_with_password n c password w = ((True, None), w1)"
    using si by (simp add: w1_def prod_eq_iff)
  have s2: "get_session_string n c w1 = (Some s, w2)"
    using gs by (simp add: w1_def w2_def prod_eq_iff)
  have res: "verify_2fa_password_async n user_id password w =
      (Inr (False, Some (str_exc e)), pop_state user_id w2)"
    using s by (simp add: verify_2fa_password_async_def verify_2fa_password_body_def st c m ph
        co getitem_def s1 s2 falsy_def string_of_def insert_one_def ins)
  have con1: "attr_truthy (is_connected (clients w1 c))"
    unfolding w1_def using si by (rule sign_in_with_password_connected)
  have con2: "attr_truthy (is_connected (clients w2 c))"
    unfolding w2_def using con1 by (rule get_session_string_connected)
  show ?thesis
    by (simp add: res con2 pop_state_def)
       (simp add: w2_def get_session_string_frame w1_def sign_in_with_password_frame
          sign_in_with_password_count)
qed

section \<open>An event without an entry\<close>

text \<open>
  Claim C3 says that every event for a user without an entry yields the failure
  "session expired" and never raises. The theorem states what the three handlers do
  for such a user. None of them raises and none changes the state; the phone and the
  code handler return "Session expired"; the password handler has no membership test,
  and its message is the text of the \<^verbatim>\<open>KeyError\<close>, the decimal user id.
\<close>

theorem missing_entry_outcomes:
  "login_states w user_id = None \<Longrightarrow>
     verify_2fa_password_async n user_id password w = (Inr (False, Some (str_int user_id)), w)
   \<and> verify_otp_and_save_async n user_id otp_code w = (Inr (False, Some ''Session expired''), w)
   \<and> pyrogram_login_flow_async n user_id phone_number chat_id message_id country api_id api_hash w
       = (Inr (False, Some ''Session expired''), w)"
  by (simp add: flow_defs pop_state_absent)

theorem missing_entry_outcomes_witness:
  "login_states ex_empty 5 = None
   \<and> verify_2fa_password_async ex_net 5 ''hunter2'' ex_empty = (Inr (False, Some ''5''), ex_empty)
   \<and> verify_otp_and_save_async ex_net 5 ''54321'' ex_empty
       = (Inr (False, Some ''Session expired''), ex_empty)"
proof -
  have a: "login_states ex_empty 5 = None" by (simp add: ex_empty_def)
  have b: "str_int 5 = ''5''" by (simp add: str_int_def digit_char_def)
  show ?thesis
    using missing_entry_outcomes [OF a, of ex_net "''hunter2''" "''54321''"] a b by simp
qed

section \<open>The success path of the code handler\<close>

text \<open>
  Claim C5, as amended. When \<^verbatim>\<open>sign_in_with_otp\<close> reports success (no second factor),
  \<^verbatim>\<open>get_session_string\<close> returns a non-empty credential and \<^verbatim>\<open>insert_one\<close> does not
  raise, then \<^verbatim>\<open>verify_otp_and_save_async\<close> returns success, exactly one record is
  appended to the collection, with that credential, \<^verbatim>\<open>has_2fa\<close> false and
  \<^verbatim>\<open>two_step_password\<close> null, the entry of the user is removed, and \<^verbatim>\<open>disconnect\<close> is
  called on the client exactly once. The entry is one with the keys the flow stores.
\<close>

theorem verify_otp_success_finalizes:
  assumes st: "login_states w user_id = Some state"
    and c: "st_client state = Some c" and m: "st_manager state = Some m"
    and ph: "st_phone state = Some phone" and h: "st_phone_code_hash state = Some h"
    and co: "st_country state = Some country"
    and si: "fst (sign_in_with_otp n c phone h code w) = (True, None, None)"
    and gs: "fst (get_session_string n c (snd (sign_in_with_otp n c phone h code w))) = Some s"
    and s: "s \<noteq> []"
    and ins: "insert_one_r n = None"
  shows "fst (verify_otp_and_save_async n user_id code w)
           = Inr (True, Some ''Account added successfully'')
    \<and> accounts_col (snd (verify_otp_and_save_async n user_id code w))
         = accounts_col w @ [otp_doc n user_id country phone s]
    \<and> map_of (otp_doc n user_id country phone s) ''session_string'' = Some (BStr s)
    \<and> map_of (otp_doc n user_id country phone s) ''has_2fa'' = Some (BBool False)
    \<and> map_of (otp_doc n user_id country phone s) ''two_step_password'' = Some BNull
    \<and> login_states (snd (verify_otp_and_save_async n user_id code w))
         = (login_states w)(user_id := None)
    \<and> count_list (trace (snd (verify_otp_and_save_async n user_id code w))) (Disconnect c)
         = count_list (trace w) (Disconnect c) + 1"
proof -
  define w1 where "w1 = snd (sign_in_with_otp n c phone h code w)"
  define w2 where "w2 = snd (get_session_string n c w1)"
  define w3 where "w3 = w2\<lparr>accounts_col := accounts_col w2 @ [otp_doc n user_id country phone s]\<rparr>"
  define w4 where "w4 = snd (safe_disconnect n (Some c) w3)"
  have s1: "sign_in_with_otp n c phone h code w = ((True, None, None), w1)"
    using si by (simp add: w1_def prod_eq_iff)
  have s2: "get_session_string n c w1 = (Some s, w2)"
    using gs by (simp add: w1_def w2_def prod_eq_iff)
  have s3: "insert_one n (otp_doc n user_id country phone s) w2 = (Inr (), w3)"
    by (simp add: insert_one_def ins w3_def)
  have s4: "safe_disconnect n (Some c) w3 = (Inr (), w4)"
    using safe_disconnect_fst [of n "Some c" w3] by (simp add: w4_def prod_eq_iff)
  have res: "verify_otp_and_save_async n user_id code w =
      (Inr (True, Some ''Account added successfully''), pop_state user_id w4)"
    using s by (simp add: verify_otp_and_save_async_def verify_otp_and_save_body_def st c m ph h
        co getitem_def s1 s2 s3 s4 falsy_def string_of_def)
  have con1: "attr_truthy (is_connected (clients w1 c))"
    unfolding w1_def using si by (rule sign_in_with_otp_connected)
  have con3: "attr_truthy (is_connected (clients w3 c))"
    using get_session_string_connected [OF con1, of n] by (simp add: w3_def w2_def)
  have acc: "accounts_col w4 = accounts_col w @ [otp_doc n user_id country phone s]"
    by (simp add: w4_def safe_disconnect_frame w3_def w2_def get_session_string_frame w1_def
        sign_in_with_otp_frame)
  have ls: "login_states w4 = login_states w"
    by (simp add: w4_def safe_disconnect_frame w3_def w2_def get_session_string_frame w1_def
        sign_in_with_otp_frame)
  have cnt: "count_list (trace w4) (Disconnect c) = count_list (trace w) (Disconnect c) + 1"
    using safe_disconnect_count [OF con3, of n]
    by (simp add: w4_def w3_def w2_def get_session_string_frame w1_def sign_in_with_otp_frame)
  have d: "map_of (otp_doc n user_id country phone s) ''session_string'' = Some (BStr s)"
    "map_of (otp_doc n user_id country phone s) ''has_2fa'' = Some (BBool False)"
    "map_of (otp_doc n user_id country phone s) ''two_step_password'' = Some BNull"
    by (simp_all add: otp_doc_def)
  show ?thesis
    by (simp add: res pop_state_def acc ls cnt d)
qed

theorem verify_otp_success_finalizes_witness:
  "fst (sign_in_with_otp ex_net 0 ''+15551234567'' ''hash1'' ''54321'' ex_waiting_otp)
     = (True, None, None)
   \<and> fst (get_session_string ex_net 0
             (snd (sign_in_with_otp ex_net 0 ''+15551234567'' ''hash1'' ''54321'' ex_waiting_otp)))
       = Some ''SESSION''
   \<and> insert_one_r ex_net = None
   \<and> fst (verify_otp_and_save_async ex_net 7 ''54321'' ex_waiting_otp)
       = Inr (True, Some ''Account added successfully'')
   \<and> accounts_col (snd (verify_otp_and_save_async ex_net 7 ''54321'' ex_waiting_otp))
       = [otp_doc ex_net 7 ''US'' ''+15551234567'' ''SESSION'']
   \<and> login_states (snd (verify_otp_and_save_async ex_net 7 ''54321'' ex_waiting_otp)) 7 = None
   \<and> count_list (trace (snd (verify_otp_and_save_async ex_net 7 ''54321'' ex_waiting_otp)))
        (Disconnect 0) = 1"
proof -
  have a: "fst (sign_in_with_otp ex_net 0 ''+15551234567'' ''hash1'' ''54321'' ex_waiting_otp)
             = (True, None, None)"
    by (simp add: mgr_defs prim_defs ex_defs)
  have b: "fst (get_session_string ex_net 0
             (snd (sign_in_with_otp ex_net 0 ''+15551234567'' ''hash1'' ''54321'' ex_waiting_otp)))
             = Some ''SESSION''"
    by (simp add: mgr_defs prim_defs ex_defs)
  have i: "insert_one_r ex_net = None"
    by (simp add: ex_defs)
  have st: "login_states ex_waiting_otp 7 = Some ex_entry"
    by (simp add: ex_waiting_otp_def)
  have e: "st_client ex_entry = Some 0" "st_manager ex_entry = Some (6435225, ''4e98'')"
    "st_phone ex_entry = Some ''+15551234567''" "st_phone_code_hash ex_entry = Some ''hash1''"
    "st_country ex_entry = Some ''US''"
    by (simp_all add: ex_entry_def)
  have t: "count_list (trace ex_waiting_otp) (Disconnect 0) = 0" "accounts_col ex_waiting_otp = []"
    by (simp_all add: ex_defs)
  have ne: "''SESSION'' \<noteq> []" by simp
  show ?thesis
    using verify_otp_success_finalizes [OF st e a b ne i] a b i st t by simp
qed

text \<open>The claim as it was stated fails where the sign-in succeeds and the export does
  not: no record is written, the entry stays and nothing is disconnected.\<close>

theorem verify_otp_success_counterexample:
  "fst (sign_in_with_otp ex_net_export_fails 0 ''+15551234567'' ''hash1'' ''54321'' ex_waiting_otp)
     = (True, None, None)
   \<and> accounts_col (snd (verify_otp_and_save_async ex_net_export_fails 7 ''54321'' ex_waiting_otp))
       = accounts_col ex_waiting_otp
   \<and> login_states (snd (verify_otp_and_save_async ex_net_export_fails 7 ''54321'' ex_waiting_otp)) 7
       = Some ex_entry
   \<and> count_list (trace (snd (verify_otp_and_save_async ex_net_export_fails 7 ''54321''
                               ex_waiting_otp))) (Disconnect 0) = 0"
  by (simp add: flow_defs mgr_defs prim_defs ex_defs)

section \<open>A phone number for a user who already has a session\<close>

text \<open>
  Claim C4, as amended. The store is a dictionary keyed by the user id, so a user has
  at most one entry. When \<^verbatim>\<open>connect\<close> and \<^verbatim>\<open>send_code\<close> succeed for a user whose entry
  already holds a client, the phone submission is accepted and the entry is updated in
  place: it now refers to the new client, the set of users with an entry is the same,
  and the old client (an object created earlier) is left as it was. The only calls made are \<^verbatim>\<open>connect\<close> and
  \<^verbatim>\<open>send_code\<close> on the new client; nothing releases the old one. The phone step of
  \<^verbatim>\<open>text_handler\<close> in \<^verbatim>\<open>bot.py\<close> overwrites \<^verbatim>\<open>temp_clients[uid]\<close> in the same way.
\<close>

theorem phone_submission_overwrites_session:
  assumes ok: "connect_r n = None" "send_code_r n = Inr hash"
    and old: "old < next_client w"
  shows "(login_states w user_id = Some state \<and> st_client state = Some old \<longrightarrow>
            fst (pyrogram_login_flow_async n user_id phone chat_id message_id country api_id
                   api_hash w) = Inr (True, Some ''OTP sent successfully'')
          \<and> login_states (snd (pyrogram_login_flow_async n user_id phone chat_id message_id
                                  country api_id api_hash w))
              = (login_states w)(user_id \<mapsto>
                   state\<lparr>st_client := Some (next_client w), st_phone := Some phone,
                         st_phone_code_hash := Some hash, st_step := Some ''waiting_otp'',
                         st_manager := Some (api_id, api_hash), st_country := Some country,
                         st_api_id := Some api_id, st_api_hash := Some api_hash\<rparr>)
          \<and> dom (login_states (snd (pyrogram_login_flow_async n user_id phone chat_id message_id
                                       country api_id api_hash w))) = dom (login_states w)
          \<and> clients (snd (pyrogram_login_flow_async n user_id phone chat_id message_id country
                            api_id api_hash w)) old = clients w old
          \<and> trace (snd (pyrogram_login_flow_async n user_id phone chat_id message_id country
                          api_id api_hash w))
              = trace w @ [Connect (next_client w), SendCode (next_client w) phone])
       \<and> (user_state w user_id = Some data \<and> b_step data = ''phone''
            \<and> temp_clients w user_id = Some old \<longrightarrow>
            temp_clients (snd (text_handler n user_id text w))
              = (temp_clients w)(user_id \<mapsto> next_client w)
          \<and> user_state (snd (text_handler n user_id text w))
              = (user_state w)(user_id \<mapsto>
                   \<lparr>b_step = ''otp'', b_phone = Some (strip text), b_hash = Some hash\<rparr>)
          \<and> clients (snd (text_handler n user_id text w)) old = clients w old
          \<and> trace (snd (text_handler n user_id text w))
              = trace w @ [Connect (next_client w), SendCode (next_client w) (strip text)])"
proof (intro conjI impI)
  assume a: "login_states w user_id = Some state \<and> st_client state = Some old"
  let ?r = "pyrogram_login_flow_async n user_id phone chat_id message_id country api_id api_hash w"
  have r: "?r = (Inr (True, Some ''OTP sent successfully''),
      (w\<lparr>clients := (clients w)(next_client w := \<lparr>is_connected = Some True, session = Some True\<rparr>),
         next_client := Suc (next_client w),
         trace := trace w @ [Connect (next_client w), SendCode (next_client w) phone],
         login_states := (login_states w)(user_id \<mapsto>
                   state\<lparr>st_client := Some (next_client w), st_phone := Some phone,
                         st_phone_code_hash := Some hash, st_step := Some ''waiting_otp'',
                         st_manager := Some (api_id, api_hash), st_country := Some country,
                         st_api_id := Some api_id, st_api_hash := Some api_hash\<rparr>)\<rparr>))"
    using a by (simp add: flow_defs mgr_defs prim_defs ok)
  show "fst ?r = Inr (True, Some ''OTP sent successfully'')" by (simp add: r)
  show "login_states (snd ?r) = (login_states w)(user_id \<mapsto>
                   state\<lparr>st_client := Some (next_client w), st_phone := Some phone,
                         st_phone_code_hash := Some hash, st_step := Some ''waiting_otp'',
                         st_manager := Some (api_id, api_hash), st_country := Some country,
                         st_api_id := Some api_id, st_api_hash := Some api_hash\<rparr>)"
    by (simp add: r)
  show "dom (login_states (snd ?r)) = dom (login_states w)"
    using a by (auto simp add: r)
  show "clients (snd ?r) old = clients w old" using old by (simp add: r)
  show "trace (snd ?r) = trace w @ [Connect (next_client w), SendCode (next_client w) phone]"
    by (simp add: r)
next
  assume a: "user_state w user_id = Some data \<and> b_step data = ''phone''
             \<and> temp_clients w user_id = Some old"
  let ?r = "text_handler n user_id text w"
  have r: "snd ?r =
      w\<lparr>clients := (clients w)(next_client w := \<lparr>is_connected = Some True, session = Some True\<rparr>),
        next_client := Suc (next_client w),
        trace := trace w @ [Connect (next_client w), SendCode (next_client w) (strip text)],
        user_state := (user_state w)(user_id \<mapsto>
                   \<lparr>b_step = ''otp'', b_phone = Some (strip text), b_hash = Some hash\<rparr>),
        temp_clients := (temp_clients w)(user_id \<mapsto> next_client w),
        replies := replies w @ (case reply_r n of None \<Rightarrow> [ReplyOtpSent] | Some e \<Rightarrow> [])\<rparr>"
    using a by (simp add: text_handler_def reply_def create_client_def prim_defs ok
        split: option.splits)
  show "temp_clients (snd ?r) = (temp_clients w)(user_id \<mapsto> next_client w)" by (simp add: r)
  show "user_state (snd ?r) = (user_state w)(user_id \<mapsto>
                   \<lparr>b_step = ''otp'', b_phone = Some (strip text), b_hash = Some hash\<rparr>)"
    by (simp add: r)
  show "clients (snd ?r) old = clients w old" using old by (simp add: r)
  show "trace (snd ?r) = trace w @ [Connect (next_client w), SendCode (next_client w) (strip text)]"
    by (simp add: r)
qed

theorem phone_submission_overwrites_session_witness:
  "connect_r ex_net = None \<and> send_code_r ex_net = Inr ''hash1''
   \<and> 0 < next_client ex_waiting_otp
   \<and> login_states ex_waiting_otp 7 = Some ex_entry \<and> st_client ex_entry = Some 0
   \<and> fst (pyrogram_login_flow_async ex_net 7 ''+15559876543'' 100 200 ''US'' 6435225 ''4e98''
            ex_waiting_otp) = Inr (True, Some ''OTP sent successfully'')
   \<and> clients (snd (pyrogram_login_flow_async ex_net 7 ''+15559876543'' 100 200 ''US'' 6435225
                     ''4e98'' ex_waiting_otp)) 0 = open_client
   \<and> trace (snd (pyrogram_login_flow_async ex_net 7 ''+15559876543'' 100 200 ''US'' 6435225
                   ''4e98'' ex_waiting_otp))
       = [Connect 0, SendCode 0 ''+15551234567'', Connect 1, SendCode 1 ''+15559876543'']
   \<and> 0 < next_client ex_bot_again
   \<and> b_step \<lparr>b_step = ''phone'', b_phone = None, b_hash = None\<rparr> = ''phone''
   \<and> temp_clients ex_bot_again 7 = Some 0
   \<and> temp_clients (snd (text_handler ex_net 7 ''+15559876543'' ex_bot_again)) 7 = Some 1
   \<and> clients (snd (text_handler ex_net 7 ''+15559876543'' ex_bot_again)) 0 = open_client"
proof -
  have ok: "connect_r ex_net = None" "send_code_r ex_net = Inr ''hash1''"
    by (simp_all add: ex_net_def)
  have o1: "0 < next_client ex_waiting_otp" and o2: "0 < next_client ex_bot_again"
    by (simp_all add: ex_defs)
  have a: "login_states ex_waiting_otp 7 = Some ex_entry \<and> st_client ex_entry = Some 0"
    by (simp add: ex_defs)
  have b: "user_state ex_bot_again 7 = Some \<lparr>b_step = ''phone'', b_phone = None, b_hash = None\<rparr>
           \<and> b_step \<lparr>b_step = ''phone'', b_phone = None, b_hash = None\<rparr> = ''phone''
           \<and> temp_clients ex_bot_again 7 = Some 0"
    by (simp add: ex_defs)
  have v: "clients ex_waiting_otp 0 = open_client" "clients ex_bot_again 0 = open_client"
    "next_client ex_waiting_otp = 1" "next_client ex_bot_again = 1"
    "trace ex_waiting_otp = [Connect 0, SendCode 0 ''+15551234567'']"
    by (simp_all add: ex_defs)
  show ?thesis
    using phone_submission_overwrites_session [OF ok o1, of 7 ex_entry "''+15559876543''" 100 200
            "''US''" 6435225 "''4e98''"]
          phone_submission_overwrites_session [OF ok o2, of 7 ex_entry _ _ _ _ _ _
            "\<lparr>b_step = ''phone'', b_phone = None, b_hash = None\<rparr>" "''+15559876543''"]
          ok o1 o2 a b v
    by simp
qed

text \<open>The claim as it was stated fails at the world in which user 7 awaits the code with
  client 0 connected: a second phone number is accepted, the entry then refers to
  client 1, and client 0 is still connected, with no \<^verbatim>\<open>disconnect\<close> called on it.\<close>

theorem phone_submission_leak_counterexample:
  "map_option st_client (login_states ex_waiting_otp 7) = Some (Some 0)
   \<and> is_connected (clients ex_waiting_otp 0) = Some True
   \<and> fst (pyrogram_login_flow_async ex_net 7 ''+15559876543'' 100 200 ''US'' 6435225 ''4e98''
            ex_waiting_otp) = Inr (True, Some ''OTP sent successfully'')
   \<and> map_option st_client
        (login_states (snd (pyrogram_login_flow_async ex_net 7 ''+15559876543'' 100 200 ''US''
                              6435225 ''4e98'' ex_waiting_otp)) 7) = Some (Some 1)
   \<and> is_connected (clients (snd (pyrogram_login_flow_async ex_net 7 ''+15559876543'' 100 200
                                   ''US'' 6435225 ''4e98'' ex_waiting_otp)) 0) = Some True
   \<and> count_list (trace (snd (pyrogram_login_flow_async ex_net 7 ''+15559876543'' 100 200 ''US''
                               6435225 ''4e98'' ex_waiting_otp))) (Disconnect 0) = 0"
  by (simp add: flow_defs mgr_defs prim_defs ex_defs)

section \<open>A rate-limited phone submission\<close>

text \<open>
  Claim C6, as amended. When \<^verbatim>\<open>connect\<close> succeeds and \<^verbatim>\<open>send_code\<close> raises
  \<^verbatim>\<open>FloodWait\<close> with value \<open>v\<close>, \<^verbatim>\<open>pyrogram_login_flow_async\<close> returns the failure
  "FloodWait: Please wait v seconds"; it calls \<^verbatim>\<open>send_code\<close> once, then stops the inner
  session and disconnects the new client once, after which the client is not connected
  if the disconnect succeeded; and \<^verbatim>\<open>login_states\<close> is exactly what it was, so the entry
  the user had before the submission is still there and does not refer to the new
  client. The phone step of \<^verbatim>\<open>text_handler\<close> in \<^verbatim>\<open>bot.py\<close> also calls \<^verbatim>\<open>send_code\<close>
  once and leaves \<^verbatim>\<open>user_state\<close> and \<^verbatim>\<open>temp_clients\<close> as they were, whatever becomes
  of its reply; when the reply that carries the wait time is delivered, the handler
  sends exactly that reply and then disconnects the new client once. What happens to
  the connection when that reply itself fails is not part of the statement.
\<close>

theorem rate_limited_phone_submission:
  assumes ok: "connect_r n = None" "send_code_r n = Inl (FloodWait v s)"
  shows "(login_states w user_id = Some state \<longrightarrow>
            fst (pyrogram_login_flow_async n user_id phone chat_id message_id country api_id
                   api_hash w)
              = Inr (False, Some (''FloodWait: Please wait '' @ str_int v @ '' seconds''))
          \<and> login_states (snd (pyrogram_login_flow_async n user_id phone chat_id message_id
                                  country api_id api_hash w)) = login_states w
          \<and> trace (snd (pyrogram_login_flow_async n user_id phone chat_id message_id country
                          api_id api_hash w))
              = trace w @ [Connect (next_client w), SendCode (next_client w) phone,
                           SessionStop (next_client w), Disconnect (next_client w)]
          \<and> (disconnect_r n = None \<longrightarrow>
               is_connected (clients (snd (pyrogram_login_flow_async n user_id phone chat_id
                                             message_id country api_id api_hash w))
                               (next_client w)) = Some False))
       \<and> (user_state w user_id = Some data \<and> b_step data = ''phone'' \<longrightarrow>
            user_state (snd (text_handler n user_id text w)) = user_state w
          \<and> temp_clients (snd (text_handler n user_id text w)) = temp_clients w
          \<and> count_list (trace (snd (text_handler n user_id text w)))
                (SendCode (next_client w) (strip text))
              = count_list (trace w) (SendCode (next_client w) (strip text)) + 1
          \<and> (reply_r n = None \<longrightarrow>
                replies (snd (text_handler n user_id text w)) = replies w @ [ReplyFloodWait v]
              \<and> trace (snd (text_handler n user_id text w))
                  = trace w @ [Connect (next_client w), SendCode (next_client w) (strip text),
                               Disconnect (next_client w)]))"
proof (intro conjI impI)
  assume a: "login_states w user_id = Some state"
  let ?r = "pyrogram_login_flow_async n user_id phone chat_id message_id country api_id api_hash w"
  show "fst ?r = Inr (False, Some (''FloodWait: Please wait '' @ str_int v @ '' seconds''))"
    by (simp add: flow_defs mgr_defs prim_defs a ok split: option.splits)
  show "login_states (snd ?r) = login_states w"
    by (simp add: flow_defs mgr_defs prim_defs a ok split: option.splits)
  show "trace (snd ?r) = trace w @ [Connect (next_client w), SendCode (next_client w) phone,
                           SessionStop (next_client w), Disconnect (next_client w)]"
    by (simp add: flow_defs mgr_defs prim_defs a ok split: option.splits)
  assume "disconnect_r n = None"
  then show "is_connected (clients (snd ?r) (next_client w)) = Some False"
    by (simp add: flow_defs mgr_defs prim_defs a ok split: option.splits)
next
  assume a: "user_state w user_id = Some data \<and> b_step data = ''phone''"
  let ?r = "text_handler n user_id text w"
  show "user_state (snd ?r) = user_state w"
    using a by (simp add: text_handler_def reply_def create_client_def prim_defs ok
        split: option.splits)
  show "temp_clients (snd ?r) = temp_clients w"
    using a by (simp add: text_handler_def reply_def create_client_def prim_defs ok
        split: option.splits)
  show "count_list (trace (snd ?r)) (SendCode (next_client w) (strip text))
          = count_list (trace w) (SendCode (next_client w) (strip text)) + 1"
    using a by (simp add: text_handler_def reply_def create_client_def prim_defs ok
        split: option.splits)
  assume d: "reply_r n = None"
  show "replies (snd ?r) = replies w @ [ReplyFloodWait v]"
    using a d by (simp add: text_handler_def reply_def create_client_def prim_defs ok
        split: option.splits)
  show "trace (snd ?r) = trace w @ [Connect (next_client w), SendCode (next_client w) (strip text),
                           Disconnect (next_client w)]"
    using a d by (simp add: text_handler_def reply_def create_client_def prim_defs ok
        split: option.splits)
qed

theorem rate_limited_phone_submission_witness:
  "connect_r ex_net_flood = None \<and> send_code_r ex_net_flood = Inl (FloodWait 30 ''FLOOD_WAIT_30'')
   \<and> login_states ex_waiting_phone 7 = Some ex_phone_entry
   \<and> fst (pyrogram_login_flow_async ex_net_flood 7 ''+15551234567'' 100 200 ''US'' 6435225
            ''4e98'' ex_waiting_phone) = Inr (False, Some ''FloodWait: Please wait 30 seconds'')
   \<and> trace (snd (pyrogram_login_flow_async ex_net_flood 7 ''+15551234567'' 100 200 ''US''
                   6435225 ''4e98'' ex_waiting_phone))
       = [Connect 0, SendCode 0 ''+15551234567'', SessionStop 0, Disconnect 0]
   \<and> disconnect_r ex_net_flood = None
   \<and> is_connected (clients (snd (pyrogram_login_flow_async ex_net_flood 7 ''+15551234567'' 100
                                   200 ''US'' 6435225 ''4e98'' ex_waiting_phone)) 0) = Some False
   \<and> b_step \<lparr>b_step = ''phone'', b_phone = None, b_hash = None\<rparr> = ''phone''
   \<and> reply_r ex_net_flood = None
   \<and> replies (snd (text_handler ex_net_flood 7 ''+15551234567'' ex_bot_phone))
       = [ReplySendPhone, ReplyFloodWait 30]
   \<and> trace (snd (text_handler ex_net_flood 7 ''+15551234567'' ex_bot_phone))
       = [Connect 0, SendCode 0 ''+15551234567'', Disconnect 0]"
proof -
  have ok: "connect_r ex_net_flood = None"
    "send_code_r ex_net_flood = Inl (FloodWait 30 ''FLOOD_WAIT_30'')"
    by (simp_all add: ex_defs)
  have a: "login_states ex_waiting_phone 7 = Some ex_phone_entry"
    "disconnect_r ex_net_flood = None" "reply_r ex_net_flood = None"
    by (simp_all add: ex_defs)
  have b: "user_state ex_bot_phone 7 = Some \<lparr>b_step = ''phone'', b_phone = None, b_hash = None\<rparr>"
    "b_step \<lparr>b_step = ''phone'', b_phone = None, b_hash = None\<rparr> = ''phone''"
    by (simp_all add: ex_defs)
  have v: "next_client ex_waiting_phone = 0" "next_client ex_bot_phone = 0"
    "trace ex_waiting_phone = []" "trace ex_bot_phone = []" "replies ex_bot_phone = [ReplySendPhone]"
    "str_int 30 = ''30''" "strip ''+15551234567'' = ''+15551234567''"
    by (simp_all add: ex_defs str_int_def digit_char_def strip_def is_space_def)
  show ?thesis
    using rate_limited_phone_submission [OF ok, of ex_waiting_phone 7 ex_phone_entry
            "''+15551234567''" 100 200 "''US''" 6435225 "''4e98''"]
          rate_limited_phone_submission [OF ok, of ex_bot_phone 7 ex_phone_entry _ _ _ _ _ _
            "\<lparr>b_step = ''phone'', b_phone = None, b_hash = None\<rparr>" "''+15551234567''"]
          ok a b v
    by simp
qed

text \<open>The claim as it was stated fails at the world in which user 7 has an entry and no
  client yet: after the rate-limited submission the entry is still there.\<close>

theorem rate_limited_entry_counterexample:
  "send_code_r ex_net_flood = Inl (FloodWait 30 ''FLOOD_WAIT_30'')
   \<and> fst (pyrogram_login_flow_async ex_net_flood 7 ''+15551234567'' 100 200 ''US'' 6435225
            ''4e98'' ex_waiting_phone) = Inr (False, Some ''FloodWait: Please wait 30 seconds'')
   \<and> login_states (snd (pyrogram_login_flow_async ex_net_flood 7 ''+15551234567'' 100 200 ''US''
                          6435225 ''4e98'' ex_waiting_phone)) 7 = Some ex_phone_entry
   \<and> user_state (snd (text_handler ex_net_flood 7 ''+15551234567'' ex_bot_phone)) 7
       = Some \<lparr>b_step = ''phone'', b_phone = None, b_hash = None\<rparr>"
  by (simp add: flow_defs bot_defs mgr_defs prim_defs ex_defs str_int_def digit_char_def)

section \<open>cleanup\<close>

text \<open>
  Claim C7, as amended. \<^verbatim>\<open>cleanup(uid)\<close>, the only operation of the repository that
  drops an attempt, removes the entry of the user from \<^verbatim>\<open>user_state\<close> and from
  \<^verbatim>\<open>temp_clients\<close> and calls nothing on the client: the trace and every client object
  are as before, so an open connection stays open. A text message of that user which
  arrives afterwards is ignored by \<^verbatim>\<open>text_handler\<close>: it returns normally, sends no
  reply and changes nothing.
\<close>

theorem cleanup_removes_entry_only:
  "user_state (cleanup uid w) uid = None
   \<and> temp_clients (cleanup uid w) uid = None
   \<and> trace (cleanup uid w) = trace w
   \<and> clients (cleanup uid w) = clients w
   \<and> text_handler n uid text (cleanup uid w) = (Inr (), cleanup uid w)"
  by (simp add: cleanup_def text_handler_def)

theorem cleanup_removes_entry_only_witness:
  "user_state (cleanup 7 ex_bot_otp) 7 = None
   \<and> temp_clients (cleanup 7 ex_bot_otp) 7 = None
   \<and> trace (cleanup 7 ex_bot_otp) = [Connect 0, SendCode 0 ''+15551234567'']
   \<and> clients (cleanup 7 ex_bot_otp) 0 = open_client
   \<and> text_handler ex_net 7 ''54321'' (cleanup 7 ex_bot_otp) = (Inr (), cleanup 7 ex_bot_otp)"
proof -
  have v: "trace ex_bot_otp = [Connect 0, SendCode 0 ''+15551234567'']"
    "clients ex_bot_otp 0 = open_client"
    by (simp_all add: ex_defs)
  show ?thesis
    using cleanup_removes_entry_only [of 7 ex_bot_otp ex_net "''54321''"] v by simp
qed

text \<open>The claim as it was stated fails at the world in which user 7 awaits the code with
  client 0 connected: after \<^verbatim>\<open>cleanup(7)\<close> client 0 is still connected and no
  \<^verbatim>\<open>disconnect\<close> was called, and the code the user sends next gets no reply at all.\<close>

theorem cleanup_abandon_counterexample:
  "map_option b_step (user_state ex_bot_otp 7) = Some ''otp''
   \<and> temp_clients ex_bot_otp 7 = Some 0
   \<and> is_connected (clients ex_bot_otp 0) = Some True
   \<and> is_connected (clients (cleanup 7 ex_bot_otp) 0) = Some True
   \<and> count_list (trace (cleanup 7 ex_bot_otp)) (Disconnect 0) = 0
   \<and> replies (snd (text_handler ex_net 7 ''54321'' (cleanup 7 ex_bot_otp))) = replies ex_bot_otp"
  by (simp add: cleanup_def text_handler_def ex_defs)

section \<open>Reading a stored credential back\<close>

lemma find_one_append:
  "find_one q (col @ [d]) =
     (case find_one q col of Some r \<Rightarrow> Some r | None \<Rightarrow> if matches q d then Some d else None)"
  by (induction col) (auto simp add: find_one_def)

lemma find_one_matches: "find_one q col = Some r \<Longrightarrow> matches q r"
  by (auto simp add: find_one_def find_Some_iff)

text \<open>
  Claim C8, as amended. A successful \<^verbatim>\<open>verify_2fa_password_async\<close> appends one record
  with \<^verbatim>\<open>has_2fa\<close> true, the password as supplied in \<^verbatim>\<open>two_step_password\<close>, the phone
  number, and the owner in the field \<^verbatim>\<open>created_by\<close>. A \<^verbatim>\<open>find_one\<close> on that owner and
  phone number then returns a record with that owner and phone number, and it returns
  the record just written, hence the same secret, when no earlier record has that owner
  and phone number. The lookup of \<^verbatim>\<open>bot.py\<close>, \<open>find_account\<close>, asks for the field
  \<^verbatim>\<open>user_id\<close>, which this record does not have: whatever it returned before the write,
  it returns after it. What \<open>find_account\<close> reads back are the records of
  \<^verbatim>\<open>save_account\<close> in \<^verbatim>\<open>bot.py\<close>: written with \<^verbatim>\<open>two_step\<close> true, such a record holds
  the flag and no secret, and the lookup on its owner and phone number returns a record
  with that owner and phone number, the record just written when no earlier one matches.
\<close>

theorem twofa_record_read_back:
  assumes st: "login_states w user_id = Some state"
    and c: "st_client state = Some c" and m: "st_manager state = Some m"
    and ph: "st_phone state = Some phone" and co: "st_country state = Some country"
    and si: "fst (sign_in_with_password n c password w) = (True, None)"
    and gs: "fst (get_session_string n c (snd (sign_in_with_password n c password w))) = Some s"
    and s: "s \<noteq> []"
    and ins: "insert_one_r n = None"
  shows "accounts_col (snd (verify_2fa_password_async n user_id password w))
           = accounts_col w @ [twofa_doc n user_id country phone s password]
    \<and> map_of (twofa_doc n user_id country phone s password) ''has_2fa'' = Some (BBool True)
    \<and> map_of (twofa_doc n user_id country phone s password) ''two_step_password''
         = Some (BStr password)
    \<and> (\<exists>r. find_one [(''created_by'', BInt user_id), (''phone'', BStr phone)]
               (accounts_col (snd (verify_2fa_password_async n user_id password w))) = Some r
            \<and> map_of r ''created_by'' = Some (BInt user_id)
            \<and> map_of r ''phone'' = Some (BStr phone)
            \<and> (find_one [(''created_by'', BInt user_id), (''phone'', BStr phone)]
                  (accounts_col w) = None
                 \<longrightarrow> r = twofa_doc n user_id country phone s password))
    \<and> find_account uid' phone' (snd (verify_2fa_password_async n user_id password w))
         = find_account uid' phone' w
    \<and> (export_session_string_r n = Inr sess \<longrightarrow>
          accounts_col (snd (save_account n uid' phone' c' True w))
            = accounts_col w @ [bot_doc n uid' phone' sess True]
        \<and> map_of (bot_doc n uid' phone' sess True) ''two_step'' = Some (BBool True)
        \<and> map_of (bot_doc n uid' phone' sess True) ''two_step_password'' = None
        \<and> (\<exists>r. find_account uid' phone' (snd (save_account n uid' phone' c' True w)) = Some r
               \<and> map_of r ''user_id'' = Some (BInt uid')
               \<and> map_of r ''phone'' = Some (BStr phone')
               \<and> (find_account uid' phone' w = None \<longrightarrow> r = bot_doc n uid' phone' sess True)))"
proof -
  define w1 where "w1 = snd (sign_in_with_password n c password w)"
  define w2 where "w2 = snd (get_session_string n c w1)"
  define d where "d = twofa_doc n user_id country phone s password"
  define w3 where "w3 = w2\<lparr>accounts_col := accounts_col w2 @ [d]\<rparr>"
  define w4 where "w4 = snd (safe_disconnect n (Some c) w3)"
  define q where "q = [(''created_by'', BInt user_id), (''phone'', BStr phone)]"
  have s1: "sign_in_with_password n c password w = ((True, None), w1)"
    using si by (simp add: w1_def prod_eq_iff)
  have s2: "get_session_string n c w1 = (Some s, w2)"
    using gs by (simp add: w1_def w2_def prod_eq_iff)
  have s3: "insert_one n d w2 = (Inr (), w3)"
    by (simp add: insert_one_def ins w3_def)
  have s4: "safe_disconnect n (Some c) w3 = (Inr (), w4)"
    using safe_disconnect_fst [of n "Some c" w3] by (simp add: w4_def prod_eq_iff)
  have res: "verify_2fa_password_async n user_id password w =
      (Inr (True, Some ''Account added successfully''), pop_state user_id w4)"
    using s by (simp add: verify_2fa_password_async_def verify_2fa_password_body_def st c m ph co
        getitem_def s1 s2 s3 [unfolded d_def] s4 falsy_def string_of_def)
  have acc: "accounts_col (pop_state user_id w4) = accounts_col w @ [d]"
    by (simp add: pop_state_def w4_def safe_disconnect_frame w3_def w2_def
        get_session_string_frame w1_def sign_in_with_password_frame)
  have md: "matches q d"
    by (simp add: matches_def q_def d_def twofa_doc_def)
  have nm: "\<not> matches [(''user_id'', BInt uid'), (''phone'', BStr phone')] d"
    by (simp add: matches_def d_def twofa_doc_def)
  have f: "\<exists>r. find_one q (accounts_col w @ [d]) = Some r
            \<and> map_of r ''created_by'' = Some (BInt user_id)
            \<and> map_of r ''phone'' = Some (BStr phone)
            \<and> (find_one q (accounts_col w) = None \<longrightarrow> r = d)"
  proof (cases "find_one q (accounts_col w)")
    case None
    then show ?thesis
      using md by (simp add: find_one_append) (simp add: d_def twofa_doc_def)
  next
    case (Some r)
    from find_one_matches [OF this] have "matches q r" .
    then show ?thesis
      using Some by (simp add: find_one_append matches_def q_def)
  qed
  have first: "accounts_col (snd (verify_2fa_password_async n user_id password w))
           = accounts_col w @ [twofa_doc n user_id country phone s password]
    \<and> map_of (twofa_doc n user_id country phone s password) ''has_2fa'' = Some (BBool True)
    \<and> map_of (twofa_doc n user_id country phone s password) ''two_step_password''
         = Some (BStr password)
    \<and> (\<exists>r. find_one [(''created_by'', BInt user_id), (''phone'', BStr phone)]
               (accounts_col (snd (verify_2fa_password_async n user_id password w))) = Some r
            \<and> map_of r ''created_by'' = Some (BInt user_id)
            \<and> map_of r ''phone'' = Some (BStr phone)
            \<and> (find_one [(''created_by'', BInt user_id), (''phone'', BStr phone)]
                  (accounts_col w) = None
                 \<longrightarrow> r = twofa_doc n user_id country phone s password))
    \<and> find_account uid' phone' (snd (verify_2fa_password_async n user_id password w))
         = find_account uid' phone' w"
    unfolding res snd_conv acc find_account_def
    using f nm by (simp add: d_def q_def find_one_append twofa_doc_def split: option.splits)
  have second: "accounts_col (snd (save_account n uid' phone' c' True w))
            = accounts_col w @ [bot_doc n uid' phone' sess True]
        \<and> map_of (bot_doc n uid' phone' sess True) ''two_step'' = Some (BBool True)
        \<and> map_of (bot_doc n uid' phone' sess True) ''two_step_password'' = None
        \<and> (\<exists>r. find_account uid' phone' (snd (save_account n uid' phone' c' True w)) = Some r
               \<and> map_of r ''user_id'' = Some (BInt uid')
               \<and> map_of r ''phone'' = Some (BStr phone')
               \<and> (find_account uid' phone' w = None \<longrightarrow> r = bot_doc n uid' phone' sess True))"
    if ex: "export_session_string_r n = Inr sess"
  proof -
    define b where "b = bot_doc n uid' phone' sess True"
    define qb where "qb = [(''user_id'', BInt uid'), (''phone'', BStr phone')]"
    have sa: "accounts_col (snd (save_account n uid' phone' c' True w)) = accounts_col w @ [b]"
      by (simp add: save_account_def client_export_session_string_def insert_one_def
          client_disconnect_def log_call_def set_client_def Let_def ex ins b_def
          split: option.splits)
    have mb: "matches qb b"
      by (simp add: matches_def qb_def b_def bot_doc_def)
    have fb: "\<exists>r. find_one qb (accounts_col w @ [b]) = Some r
            \<and> map_of r ''user_id'' = Some (BInt uid')
            \<and> map_of r ''phone'' = Some (BStr phone')
            \<and> (find_one qb (accounts_col w) = None \<longrightarrow> r = b)"
    proof (cases "find_one qb (accounts_col w)")
      case None
      then show ?thesis
        using mb by (simp add: find_one_append) (simp add: b_def bot_doc_def)
    next
      case (Some r)
      from find_one_matches [OF this] have "matches qb r" .
      then show ?thesis
        using Some by (simp add: find_one_append matches_def qb_def)
    qed
    have mo: "map_of b ''two_step'' = Some (BBool True)" "map_of b ''two_step_password'' = None"
      by (simp_all add: b_def bot_doc_def)
    show ?thesis
      using fb mo by (simp add: sa find_account_def b_def [symmetric] qb_def [symmetric])
  qed
  show ?thesis
    using first second by blast
qed

theorem twofa_record_read_back_witness:
  "fst (sign_in_with_password ex_net 0 ''hunter2'' ex_waiting_password) = (True, None)
   \<and> fst (get_session_string ex_net 0
             (snd (sign_in_with_password ex_net 0 ''hunter2'' ex_waiting_password)))
       = Some ''SESSION''
   \<and> insert_one_r ex_net = None
   \<and> find_one [(''created_by'', BInt 7), (''phone'', BStr ''+15551234567'')]
        (accounts_col ex_waiting_password) = None
   \<and> accounts_col (snd (verify_2fa_password_async ex_net 7 ''hunter2'' ex_waiting_password))
       = [twofa_doc ex_net 7 ''US'' ''+15551234567'' ''SESSION'' ''hunter2'']
   \<and> find_one [(''created_by'', BInt 7), (''phone'', BStr ''+15551234567'')]
        (accounts_col (snd (verify_2fa_password_async ex_net 7 ''hunter2'' ex_waiting_password)))
       = Some (twofa_doc ex_net 7 ''US'' ''+15551234567'' ''SESSION'' ''hunter2'')
   \<and> find_account 7 ''+15551234567''
        (snd (verify_2fa_password_async ex_net 7 ''hunter2'' ex_waiting_password)) = None
   \<and> export_session_string_r ex_net = Inr ''SESSION''
   \<and> find_account 7 ''+15551234567'' ex_waiting_password = None
   \<and> find_account 7 ''+15551234567''
        (snd (save_account ex_net 7 ''+15551234567'' 0 True ex_waiting_password))
       = Some (bot_doc ex_net 7 ''+15551234567'' ''SESSION'' True)
   \<and> map_of (bot_doc ex_net 7 ''+15551234567'' ''SESSION'' True) ''two_step_password'' = None"
proof -
  have a: "fst (sign_in_with_password ex_net 0 ''hunter2'' ex_waiting_password) = (True, None)"
    by (simp add: mgr_defs prim_defs ex_defs)
  have b: "fst (get_session_string ex_net 0
             (snd (sign_in_with_password ex_net 0 ''hunter2'' ex_waiting_password)))
             = Some ''SESSION''"
    by (simp add: mgr_defs prim_defs ex_defs)
  have i: "insert_one_r ex_net = None"
    by (simp add: ex_defs)
  have st: "login_states ex_waiting_password 7 = Some (ex_entry\<lparr>st_step := Some ''waiting_password''\<rparr>)"
    by (simp add: ex_defs)
  have e: "st_client (ex_entry\<lparr>st_step := Some ''waiting_password''\<rparr>) = Some 0"
    "st_manager (ex_entry\<lparr>st_step := Some ''waiting_password''\<rparr>) = Some (6435225, ''4e98'')"
    "st_phone (ex_entry\<lparr>st_step := Some ''waiting_password''\<rparr>) = Some ''+15551234567''"
    "st_country (ex_entry\<lparr>st_step := Some ''waiting_password''\<rparr>) = Some ''US''"
    by (simp_all add: ex_entry_def)
  have t: "accounts_col ex_waiting_password = []"
    "find_account 7 ''+15551234567'' ex_waiting_password = None"
    by (simp_all add: ex_defs find_account_def find_one_def)
  have x: "export_session_string_r ex_net = Inr ''SESSION''"
    by (simp add: ex_defs)
  have ne: "''SESSION'' \<noteq> []" by simp
  show ?thesis
    using twofa_record_read_back [OF st e a b ne i, of 7 "''+15551234567''" "''SESSION''" 0]
      a b i t x
    by (auto simp add: find_one_def matches_def twofa_doc_def)
qed

text \<open>The claim as it was stated fails at the world in which user 7, who already stored
  a record for the phone number with the password "oldpass", completes a second login
  with the password "hunter2": the lookup of the repository finds no record at all, and
  a lookup on the owner field the record has returns the older record and its secret.\<close>

theorem twofa_round_trip_counterexample:
  "fst (verify_2fa_password_async ex_net 7 ''hunter2'' ex_second_login)
     = Inr (True, Some ''Account added successfully'')
   \<and> accounts_col (snd (verify_2fa_password_async ex_net 7 ''hunter2'' ex_second_login))
       = [ex_old_doc, twofa_doc ex_net 7 ''US'' ''+15551234567'' ''SESSION'' ''hunter2'']
   \<and> find_account 7 ''+15551234567''
        (snd (verify_2fa_password_async ex_net 7 ''hunter2'' ex_second_login)) = None
   \<and> map_option (\<lambda>r. map_of r ''two_step_password'')
        (find_one [(''created_by'', BInt 7), (''phone'', BStr ''+15551234567'')]
           (accounts_col (snd (verify_2fa_password_async ex_net 7 ''hunter2'' ex_second_login))))
       = Some (Some (BStr ''oldpass''))"
  by (simp add: flow_defs mgr_defs prim_defs ex_defs find_account_def find_one_def matches_def)

section \<open>fetch_latest_otp\<close>

lemma re_search_Some:
  assumes "re_search u s = Some g"
  shows "\<exists>i. match_at u s i \<and> g = take 5 (drop i s) \<and> (\<forall>j<i. \<not> match_at u s j)"
proof -
  from assms obtain i where f: "List.find (match_at u s) [0..<Suc (length s)] = Some i"
    and g: "g = take 5 (drop i s)"
    by (auto simp add: re_search_def split: option.splits)
  from f obtain k where k: "k < length [0..<Suc (length s)]"
      "match_at u s ([0..<Suc (length s)] ! k)" "i = [0..<Suc (length s)] ! k"
      "\<forall>j<k. \<not> match_at u s ([0..<Suc (length s)] ! j)"
    unfolding find_Some_iff by blast
  have ik: "i = k" using k(1,3) by (simp del: upt_Suc)
  have "\<forall>j<i. \<not> match_at u s j"
  proof (intro allI impI)
    fix j assume "j < i"
    then have "j < k" using ik by simp
    moreover from this k(1) have "[0..<Suc (length s)] ! j = j" by (simp del: upt_Suc)
    ultimately show "\<not> match_at u s j" using k(4) by auto
  qed
  moreover have "match_at u s i" using k(2,3) by simp
  ultimately show ?thesis using g by blast
qed

lemma re_search_None:
  assumes "re_search u s = None"
  shows "\<not> match_at u s i"
proof
  assume m: "match_at u s i"
  then have "i \<le> length s" by (simp add: match_at_def)
  then have "i \<in> set [0..<Suc (length s)]" by (simp del: upt_Suc)
  with m have "List.find (match_at u s) [0..<Suc (length s)] \<noteq> None"
    unfolding find_None_iff by blast
  with assms show False by (simp add: re_search_def split: option.splits)
qed

lemma re_search_shape:
  assumes "re_search u s = Some g"
  shows "length g = 5 \<and> list_all (is_digit u) g"
proof -
  from re_search_Some [OF assms] obtain i where "match_at u s i" "g = take 5 (drop i s)"
    by blast
  then show ?thesis by (auto simp add: match_at_def)
qed

lemma re_search_Nil: "re_search u [] = None"
  by (simp add: re_search_def match_at_def)

lemma fetch_loop_Some:
  "fetch_loop u ms = Some g \<Longrightarrow>
   \<exists>k t. k < length ms \<and> ms ! k = Some t \<and> re_search u t = Some g
         \<and> (\<forall>j<k. \<forall>t'. ms ! j = Some t' \<longrightarrow> re_search u t' = None)"
proof (induction ms)
  case Nil
  then show ?case by simp
next
  case (Cons m ms)
  show ?case
  proof (cases "\<exists>t. m = Some t \<and> re_search u t = Some g")
    case True
    then obtain t where "m = Some t" "re_search u t = Some g" by blast
    then have "0 < length (m # ms) \<and> (m # ms) ! 0 = Some t \<and> re_search u t = Some g
        \<and> (\<forall>j<0. \<forall>t'. (m # ms) ! j = Some t' \<longrightarrow> re_search u t' = None)" by simp
    then show ?thesis by blast
  next
    case False
    have skip: "\<forall>t'. m = Some t' \<longrightarrow> re_search u t' = None"
      using False Cons.prems by (auto split: option.splits if_splits simp add: re_search_Nil)
    have "fetch_loop u ms = Some g"
      using False Cons.prems by (auto split: option.splits if_splits)
    from Cons.IH [OF this] obtain k t where kt: "k < length ms" "ms ! k = Some t"
        "re_search u t = Some g" "\<forall>j<k. \<forall>t'. ms ! j = Some t' \<longrightarrow> re_search u t' = None"
      by blast
    have "\<forall>j<Suc k. \<forall>t'. (m # ms) ! j = Some t' \<longrightarrow> re_search u t' = None"
    proof (intro allI impI)
      fix j t' assume "j < Suc k" "(m # ms) ! j = Some t'"
      then show "re_search u t' = None" using skip kt(4) by (cases j) auto
    qed
    with kt have "Suc k < length (m # ms) \<and> (m # ms) ! Suc k = Some t \<and> re_search u t = Some g
        \<and> (\<forall>j<Suc k. \<forall>t'. (m # ms) ! j = Some t' \<longrightarrow> re_search u t' = None)" by simp
    then show ?thesis by blast
  qed
qed

lemma fetch_loop_None:
  "fetch_loop u ms = None \<Longrightarrow> Some t \<in> set ms \<Longrightarrow> re_search u t = None"
  by (induction ms) (auto split: option.splits if_splits simp add: re_search_Nil)

text \<open>
  Claim C10. \<^verbatim>\<open>fetch_latest_otp\<close> depends on nothing but the 20 newest messages of chat
  777000. When it returns a code, the code has five characters, all digits, and it is
  the leftmost match of \<^verbatim>\<open>\b\d{5}\b\<close> (five digits between two word boundaries) in the
  text of a message among those 20, no newer message of which has a match at any
  position. When it returns \<^verbatim>\<open>None\<close>, no text among those 20 has a match. The history
  lists the newest message first.
\<close>

theorem fetch_latest_otp_first_match:
  "(take 20 (chats 777000) = take 20 (chats' 777000) \<longrightarrow>
      fetch_latest_otp u chats = fetch_latest_otp u chats')
   \<and> (\<forall>g. fetch_latest_otp u chats = Some g \<longrightarrow>
        length g = 5 \<and> list_all (is_digit u) g \<and>
        (\<exists>k t i. k < 20 \<and> k < length (chats 777000) \<and> chats 777000 ! k = Some t
              \<and> match_at u t i \<and> g = take 5 (drop i t) \<and> (\<forall>i'<i. \<not> match_at u t i')
              \<and> (\<forall>k'<k. \<forall>t' i'. chats 777000 ! k' = Some t' \<longrightarrow> \<not> match_at u t' i')))
   \<and> (fetch_latest_otp u chats = None \<longrightarrow>
        (\<forall>k t i. k < 20 \<and> k < length (chats 777000) \<and> chats 777000 ! k = Some t
             \<longrightarrow> \<not> match_at u t i))"
proof (intro conjI allI impI)
  assume "take 20 (chats 777000) = take 20 (chats' 777000)"
  then show "fetch_latest_otp u chats = fetch_latest_otp u chats'"
    by (simp add: fetch_latest_otp_def get_chat_history_def)
next
  fix g assume a: "fetch_latest_otp u chats = Some g"
  let ?ms = "take 20 (chats 777000)"
  from a have "fetch_loop u ?ms = Some g"
    by (simp add: fetch_latest_otp_def get_chat_history_def)
  from fetch_loop_Some [OF this] obtain k t where kt: "k < length ?ms" "?ms ! k = Some t"
      "re_search u t = Some g" "\<forall>j<k. \<forall>t'. ?ms ! j = Some t' \<longrightarrow> re_search u t' = None"
    by blast
  from re_search_shape [OF kt(3)] show "length g = 5" "list_all (is_digit u) g" by simp_all
  from re_search_Some [OF kt(3)] obtain i where i: "match_at u t i" "g = take 5 (drop i t)"
      "\<forall>j<i. \<not> match_at u t j" by blast
  have k20: "k < 20" "k < length (chats 777000)" using kt(1) by simp_all
  have kth: "chats 777000 ! k = Some t" using kt(2) k20 by simp
  have earlier: "\<forall>k'<k. \<forall>t' i'. chats 777000 ! k' = Some t' \<longrightarrow> \<not> match_at u t' i'"
  proof (intro allI impI)
    fix k' t' i' assume "k' < k" "chats 777000 ! k' = Some t'"
    then have "?ms ! k' = Some t'" using k20 by simp
    with kt(4) \<open>k' < k\<close> have "re_search u t' = None" by blast
    then show "\<not> match_at u t' i'" by (rule re_search_None)
  qed
  show "\<exists>k t i. k < 20 \<and> k < length (chats 777000) \<and> chats 777000 ! k = Some t
              \<and> match_at u t i \<and> g = take 5 (drop i t) \<and> (\<forall>i'<i. \<not> match_at u t i')
              \<and> (\<forall>k'<k. \<forall>t' i'. chats 777000 ! k' = Some t' \<longrightarrow> \<not> match_at u t' i')"
    using k20 kth i earlier by blast
next
  fix k t i
  assume a: "fetch_latest_otp u chats = None"
    and b: "k < 20 \<and> k < length (chats 777000) \<and> chats 777000 ! k = Some t"
  let ?ms = "take 20 (chats 777000)"
  from a have n: "fetch_loop u ?ms = None"
    by (simp add: fetch_latest_otp_def get_chat_history_def)
  from b have "?ms ! k = Some t" "k < length ?ms" by simp_all
  then have "Some t \<in> set ?ms" by (metis nth_mem)
  from fetch_loop_None [OF n this] show "\<not> match_at u t i" by (rule re_search_None)
qed

theorem fetch_latest_otp_first_match_witness:
  "fetch_latest_otp ascii ex_chats = Some ''54321''
   \<and> length ''54321'' = 5
   \<and> ex_chats 777000 ! 2 = Some ''Your code is 54321. Do not share it''
   \<and> match_at ascii ''Your code is 54321. Do not share it'' 13
   \<and> fetch_latest_otp ascii (\<lambda>c. if c = 777000 then [Some ''Login code: 123456''] else ex_chats c)
       = None
   \<and> \<not> match_at ascii ''Login code: 123456'' 12
   \<and> \<not> match_at ascii ''Login code: 123456'' 13"
proof -
  have a: "fetch_latest_otp ascii ex_chats = Some ''54321''"
    by code_simp
  have b: "fetch_latest_otp ascii
             (\<lambda>c. if c = 777000 then [Some ''Login code: 123456''] else ex_chats c) = None"
    by code_simp
  have c: "match_at ascii ''Your code is 54321. Do not share it'' 13"
    by code_simp
  have d: "ex_chats 777000 ! 2 = Some ''Your code is 54321. Do not share it''"
    by (simp add: ex_chats_def)
  show ?thesis
    using fetch_latest_otp_first_match [of ex_chats ex_chats ascii]
          fetch_latest_otp_first_match
            [of "\<lambda>c. if c = 777000 then [Some ''Login code: 123456''] else ex_chats c"
                "\<lambda>c. if c = 777000 then [Some ''Login code: 123456''] else ex_chats c" ascii]
          a b c d
    by simp
qed

end
